theory Spec2Isabelle
  imports Complex_Main
begin

section \<open>Stochastic dynamics and enhanced sampling: the notebooks' code\<close>

text \<open>
  The repository is a set of exercise notebooks built on one integrator,
  \<open>update_positions\<close>. Floating-point numbers are modelled as reals (rounding,
  and the cast of the noise to single precision, are left out), Python
  exceptions as values of \<open>error\<close>, and a one-dimensional numpy array as the
  list of its entries, its shape being its length. Random draws are read from
  an explicit source that every drawing function returns advanced.

  The notebooks are exercises: where a cell leaves code open (\<open>...\<close>), the
  definition that fills it is marked as modelled from the spec.
\<close>

subsection \<open>Errors, arrays and the random source\<close>

datatype error = AssertionError string | ZeroDivisionError | IndexError

type_synonym ndarray = "real list"

definition shape :: "ndarray \<Rightarrow> nat" where
  "shape x = length x"

type_synonym rng = "nat \<Rightarrow> real"

text \<open>\<open>np.random.randn(*shape)\<close>: one draw per entry, taken in order.\<close>

definition randn :: "nat \<Rightarrow> rng \<Rightarrow> ndarray \<times> rng" where
  "randn n g = (map g [0..<n], \<lambda>i. g (i + n))"

subsection \<open>The integrator (miniMD)\<close>

definition update_positions ::
  "ndarray \<Rightarrow> ndarray \<Rightarrow> real \<Rightarrow> real \<Rightarrow> real \<Rightarrow> rng \<Rightarrow> error + (ndarray \<times> rng)" where
  "update_positions current_x force beta dt diffusion_coeff g =
     (if \<not> dt > 0 then Inl (AssertionError ''Timestep must be positive.'')
      else if \<not> diffusion_coeff > 0
        then Inl (AssertionError ''Diffusion coefficient must be positive.'')
      else if \<not> beta > 0 then Inl (AssertionError ''Temperature must be positive.'')
      else if shape current_x \<noteq> shape force
        then Inl (AssertionError
          ''Force and position vector must be of the same size, check your force function.'')
      else
        let (gauss_rand, g') = randn (shape current_x) g;
            prefactor = sqrt (2 * diffusion_coeff * dt);
            dx = map2 (\<lambda>f r. diffusion_coeff * dt * f * beta + prefactor * r) force gauss_rand;
            next_x = map2 (+) current_x dx
        in Inr (next_x, g'))"

subsection \<open>The running average of the free-energy perturbation notebook\<close>

text \<open>
  \<open>avg = step\<close> stores the integer step index, which is 0 on that branch;
  the division of the other branch is Python's true division.
\<close>

definition running_average :: "real \<Rightarrow> int \<Rightarrow> real \<Rightarrow> real" where
  "running_average x step avg =
     (if step = 0 then of_int step
      else (avg * of_int (step - 1) + x) / of_int step)"

text \<open>
  The recording of the notebook's two perturbation runs: the array
  \<open>zwanzig_factor_avg = np.zeros((total_frames + 1))\<close>, and for the recorded
  frame \<open>index\<close>, counted from 0,
  \<open>zwanzig_factor_avg[index + 1] = running_average(zwanzig_factor, index, zwanzig_factor_avg[index])\<close>.
  The Zwanzig factors of the recorded frames (their expression is left open in
  the notebook) are the list of samples.
\<close>

fun record_zwanzig_factors :: "real list \<Rightarrow> nat \<Rightarrow> real list \<Rightarrow> real list" where
  "record_zwanzig_factors zwanzig_factor_avg index [] = zwanzig_factor_avg"
| "record_zwanzig_factors zwanzig_factor_avg index (zwanzig_factor # samples) =
     record_zwanzig_factors
       (zwanzig_factor_avg[index + 1 :=
          running_average zwanzig_factor (int index) (zwanzig_factor_avg ! index)])
       (index + 1) samples"

definition zwanzig_running_averages :: "real list \<Rightarrow> real list" where
  "zwanzig_running_averages samples =
     record_zwanzig_factors (replicate (length samples + 1) 0) 0 samples"

subsection \<open>Sequencing of calls that may raise\<close>

definition bind_err :: "error + 'a \<Rightarrow> ('a \<Rightarrow> error + 'b) \<Rightarrow> error + 'b" where
  "bind_err m f = (case m of Inl e \<Rightarrow> Inl e | Inr v \<Rightarrow> f v)"

subsection \<open>Model potential, collective variable and stable states\<close>

text \<open>The double-well force of the path-sampling notebook, on two coordinates.\<close>

definition custom_force_function :: "ndarray \<Rightarrow> error + ndarray" where
  "custom_force_function current_x =
     (if length current_x < 2 then Inl IndexError
      else Inr [- 2 * 10 * (2 * (current_x ! 0) ^ 3 - current_x ! 0 - current_x ! 1),
                2 * 10 * (current_x ! 0 - current_x ! 1)])"

definition custom_cv :: "ndarray \<Rightarrow> error + real" where
  "custom_cv current_x =
     (if length current_x < 2 then Inl IndexError
      else Inr (current_x ! 0 + current_x ! 1))"

text \<open>Bounds of a state are floats that may be \<open>-np.inf\<close> or \<open>np.inf\<close>.\<close>

datatype bound = MinusInf | Finite real | PlusInf

fun greater_than :: "real \<Rightarrow> bound \<Rightarrow> bool" where
  "greater_than v MinusInf = True"
| "greater_than v (Finite b) = (v > b)"
| "greater_than v PlusInf = False"

fun less_than :: "real \<Rightarrow> bound \<Rightarrow> bool" where
  "less_than v MinusInf = False"
| "less_than v (Finite b) = (v < b)"
| "less_than v PlusInf = True"

definition custom_bounded_state ::
  "ndarray \<Rightarrow> (ndarray \<Rightarrow> error + real) \<Rightarrow> bound \<times> bound \<Rightarrow> error + bool" where
  "custom_bounded_state current_x cv_function bounds =
     bind_err (cv_function current_x)
       (\<lambda>cv_values. Inr (greater_than cv_values (fst bounds) \<and> less_than cv_values (snd bounds)))"

text \<open>
  The two \<open>partial(...)\<close> calls are left open in the notebook; its task
  statement gives the intervals: state A from \<open>-inf\<close> to \<open>-2\<close>, state B from
  \<open>2\<close> to \<open>+inf\<close>.
\<close>

definition state_A_indicator :: "ndarray \<Rightarrow> error + bool" where
  "state_A_indicator x = custom_bounded_state x custom_cv (MinusInf, Finite (- 2))"

definition state_B_indicator :: "ndarray \<Rightarrow> error + bool" where
  "state_B_indicator x = custom_bounded_state x custom_cv (Finite 2, PlusInf)"

subsection \<open>Transition path sampling\<close>

type_synonym trajectory = "ndarray list"

record tps_state =
  current_path :: trajectory
  accepted_shooting_points :: "ndarray list"
  accepted_trials :: nat
  trajectory_ensemble :: "trajectory list"

text \<open>
  What one trial draws and generates before its acceptance test: the
  shooting point and the two sub-trajectories started from it. The flexible-length
  sampler also draws a uniform number of \<open>[0, 1)\<close>.
\<close>

record proposal =
  shooting_point :: ndarray
  forward_trj :: trajectory
  reverse_trj :: trajectory

text \<open>\<open>trj[-1]\<close>\<close>

definition endpoint :: "trajectory \<Rightarrow> error + ndarray" where
  "endpoint trj = (if trj = [] then Inl IndexError else Inr (last trj))"

text \<open>
  Modelled from the spec: the right-hand side of \<open>is_reactive_path = ...\<close>,
  left open in the notebook. The spec's reactive-path test: forward end in B and
  backward end in A, or forward end in A and backward end in B.
\<close>

definition is_reactive_path :: "bool \<Rightarrow> bool \<Rightarrow> bool \<Rightarrow> bool \<Rightarrow> bool" where
  "is_reactive_path fw_in_A fw_in_B rv_in_A rv_in_B =
     ((fw_in_B \<and> rv_in_A) \<or> (fw_in_A \<and> rv_in_B))"

text \<open>
  The endpoint classification of a trial, in the source's order:
  \<open>fw_in_A = state_A_indicator(forward_trj[-1])\<close> is the notebook's. Modelled
  from the spec: the right-hand sides of \<open>fw_in_B\<close>, \<open>rv_in_A\<close> and
  \<open>rv_in_B\<close>, left open in the notebook; each sub-trajectory's endpoint is
  classified against state A and state B.
\<close>

definition check_endpoints ::
  "(ndarray \<Rightarrow> error + bool) \<Rightarrow> (ndarray \<Rightarrow> error + bool) \<Rightarrow> proposal \<Rightarrow> error + bool" where
  "check_endpoints in_A in_B p =
     bind_err (endpoint (forward_trj p)) (\<lambda>fw_end.
     bind_err (in_A fw_end) (\<lambda>fw_in_A.
     bind_err (in_B fw_end) (\<lambda>fw_in_B.
     bind_err (endpoint (reverse_trj p)) (\<lambda>rv_end.
     bind_err (in_A rv_end) (\<lambda>rv_in_A.
     bind_err (in_B rv_end) (\<lambda>rv_in_B.
       Inr (is_reactive_path fw_in_A fw_in_B rv_in_A rv_in_B)))))))"

text \<open>
  The accepted branch: \<open>np.vstack([reverse_trj[::-1], forward_trj[1:]])\<close>, the
  append to the accepted shooting points and the counter. Modelled from the
  spec: the argument of that \<open>append(...)\<close>, left open in the notebook; the
  spec records the shooting point.
\<close>

definition accept_move :: "proposal \<Rightarrow> tps_state \<Rightarrow> tps_state" where
  "accept_move p st =
     st\<lparr>current_path := rev (reverse_trj p) @ tl (forward_trj p),
        accepted_shooting_points := accepted_shooting_points st @ [shooting_point p],
        accepted_trials := accepted_trials st + 1\<rparr>"

text \<open>
  \<open>if trial > equilibration_trials and trial % path_output_frequency == 0\<close>:
  the remainder is only computed after the first test holds.
\<close>

definition add_path_to_ensemble :: "nat \<Rightarrow> nat \<Rightarrow> nat \<Rightarrow> tps_state \<Rightarrow> error + tps_state" where
  "add_path_to_ensemble equilibration_trials path_output_frequency trial st =
     (if trial > equilibration_trials then
        (if path_output_frequency = 0 then Inl ZeroDivisionError
         else if trial mod path_output_frequency = 0
           then Inr (st\<lparr>trajectory_ensemble := trajectory_ensemble st @ [current_path st]\<rparr>)
         else Inr st)
      else Inr st)"

text \<open>The body of the fixed-length sampling loop.\<close>

definition fixed_length_trial ::
  "(ndarray \<Rightarrow> error + bool) \<Rightarrow> (ndarray \<Rightarrow> error + bool) \<Rightarrow> nat \<Rightarrow> nat \<Rightarrow>
   nat \<Rightarrow> proposal \<Rightarrow> tps_state \<Rightarrow> error + tps_state" where
  "fixed_length_trial in_A in_B equilibration_trials path_output_frequency trial p st =
     bind_err (check_endpoints in_A in_B p) (\<lambda>reactive.
       add_path_to_ensemble equilibration_trials path_output_frequency trial
         (if reactive then accept_move p st else st))"

text \<open>
  Modelled from the spec: the right-hand side of \<open>length_ratio = ...\<close>, left
  open in the notebook. The spec: \<open>N_old / N_new\<close> with
  \<open>N_old = len(current_path) - 1\<close> and \<open>N_new = len(forward) + len(backward) - 1\<close>.
\<close>

definition length_ratio :: "int \<Rightarrow> int \<Rightarrow> error + real" where
  "length_ratio N_old N_new =
     (if N_new = 0 then Inl ZeroDivisionError else Inr (of_int N_old / of_int N_new))"

text \<open>
  Modelled from the spec: \<open>N_old = len(current_path) - 1\<close> and
  \<open>N_new = len(forward) + len(backward) - 1\<close>, the two lengths of the ratio.
\<close>

definition N_old :: "trajectory \<Rightarrow> int" where
  "N_old path = int (length path) - 1"

definition N_new :: "proposal \<Rightarrow> int" where
  "N_new p = int (length (forward_trj p)) + int (length (reverse_trj p)) - 1"

text \<open>
  Modelled from the spec: the condition of \<open>if ... :\<close> under
  \<open># Accept or reject\<close>, left open in the notebook. The spec: accept with
  probability \<open>min(1, length_ratio)\<close> against a uniform random draw.
\<close>

definition acceptance_probability :: "real \<Rightarrow> real" where
  "acceptance_probability ratio = min 1 ratio"

text \<open>
  Modelled from the spec: the test of the uniform draw against that
  probability.
\<close>

definition accept_draw :: "real \<Rightarrow> real \<Rightarrow> bool" where
  "accept_draw uniform_draw ratio = (uniform_draw < acceptance_probability ratio)"

text \<open>
  The body of the flexible-length sampling loop. The uniform number is the
  trial's draw of \<open>[0, 1)\<close>.
\<close>

definition flexible_length_trial ::
  "(ndarray \<Rightarrow> error + bool) \<Rightarrow> (ndarray \<Rightarrow> error + bool) \<Rightarrow> nat \<Rightarrow> nat \<Rightarrow>
   nat \<Rightarrow> proposal \<Rightarrow> real \<Rightarrow> tps_state \<Rightarrow> error + tps_state" where
  "flexible_length_trial in_A in_B equilibration_trials path_output_frequency trial p
       uniform_draw st =
     bind_err (check_endpoints in_A in_B p) (\<lambda>reactive.
     bind_err
       (if reactive then
          bind_err (length_ratio (N_old (current_path st)) (N_new p)) (\<lambda>ratio.
            Inr (if accept_draw uniform_draw ratio then accept_move p st else st))
        else Inr st)
       (add_path_to_ensemble equilibration_trials path_output_frequency trial))"

text \<open>
  \<open>for trial in range(total_trials)\<close>, from the initial path and empty
  outputs. The choice of the shooting point (left open in the notebook) and the
  two calls that generate the sub-trajectories are random; what they return in a
  trial, for the path the trial shoots from, is the parameter \<open>propose\<close>.
\<close>

fun sampling_loop ::
  "(nat \<Rightarrow> tps_state \<Rightarrow> error + tps_state) \<Rightarrow> nat list \<Rightarrow> tps_state \<Rightarrow> error + tps_state" where
  "sampling_loop body [] st = Inr st"
| "sampling_loop body (trial # trials) st =
     bind_err (body trial st) (sampling_loop body trials)"

definition initial_tps_state :: "trajectory \<Rightarrow> tps_state" where
  "initial_tps_state path =
     \<lparr>current_path = path, accepted_shooting_points = [], accepted_trials = 0,
      trajectory_ensemble = []\<rparr>"

definition fixed_length_tps ::
  "(ndarray \<Rightarrow> error + bool) \<Rightarrow> (ndarray \<Rightarrow> error + bool) \<Rightarrow> nat \<Rightarrow> nat \<Rightarrow>
   (nat \<Rightarrow> trajectory \<Rightarrow> proposal) \<Rightarrow> nat \<Rightarrow> trajectory \<Rightarrow> error + tps_state" where
  "fixed_length_tps in_A in_B equilibration_trials path_output_frequency propose
       total_trials path =
     sampling_loop
       (\<lambda>trial st. fixed_length_trial in_A in_B equilibration_trials path_output_frequency
          trial (propose trial (current_path st)) st)
       [0..<total_trials] (initial_tps_state path)"

definition flexible_length_tps ::
  "(ndarray \<Rightarrow> error + bool) \<Rightarrow> (ndarray \<Rightarrow> error + bool) \<Rightarrow> nat \<Rightarrow> nat \<Rightarrow>
   (nat \<Rightarrow> trajectory \<Rightarrow> proposal \<times> real) \<Rightarrow> nat \<Rightarrow> trajectory \<Rightarrow> error + tps_state" where
  "flexible_length_tps in_A in_B equilibration_trials path_output_frequency propose
       total_trials path =
     sampling_loop
       (\<lambda>trial st. flexible_length_trial in_A in_B equilibration_trials path_output_frequency
          trial (fst (propose trial (current_path st))) (snd (propose trial (current_path st))) st)
       [0..<total_trials] (initial_tps_state path)"

subsection \<open>Trajectory generation\<close>

text \<open>
  Modelled from the spec: the body of \<open>generate_path\<close>, which the notebook
  leaves open between \<open>previous_x = shooting_point.copy()\<close> and
  \<open>return trajectory\<close>. The spec's fixed-length mode: apply the integrator
  \<open>path_length\<close> times, recording every \<open>configuration_output_frequency\<close>-th
  configuration, the initial point included. The recording test
  \<open>step % frequency == 0\<close> is the one every other simulation cell of the notebooks uses;
  the force function is the notebook's global one.
\<close>

fun generate_path_steps ::
  "(ndarray \<Rightarrow> error + ndarray) \<Rightarrow> nat \<Rightarrow> real \<Rightarrow> real \<Rightarrow> real \<Rightarrow>
   nat list \<Rightarrow> ndarray \<Rightarrow> rng \<Rightarrow> trajectory \<Rightarrow> error + (trajectory \<times> rng)" where
  "generate_path_steps force_function configuration_output_frequency beta timestep
       diffusion_coefficient [] previous_x g trajectory = Inr (trajectory, g)"
| "generate_path_steps force_function configuration_output_frequency beta timestep
       diffusion_coefficient (step # steps) previous_x g trajectory =
     (case force_function previous_x of
        Inl e \<Rightarrow> Inl e
      | Inr current_force \<Rightarrow>
          (case update_positions previous_x current_force beta timestep
                  diffusion_coefficient g of
             Inl e \<Rightarrow> Inl e
           | Inr (next_x, g') \<Rightarrow>
               if configuration_output_frequency = 0 then Inl ZeroDivisionError
               else generate_path_steps force_function configuration_output_frequency beta
                      timestep diffusion_coefficient steps next_x g'
                      (if step mod configuration_output_frequency = 0
                       then trajectory @ [next_x] else trajectory)))"

text \<open>
  \<open>previous_x = shooting_point.copy()\<close> is the notebook's. Modelled from the
  spec: the loop over \<open>range(path_length)\<close> after it, with the start as the
  trajectory's first configuration.
\<close>

definition generate_path ::
  "(ndarray \<Rightarrow> error + ndarray) \<Rightarrow> ndarray \<Rightarrow> nat \<Rightarrow> nat \<Rightarrow> real \<Rightarrow> real \<Rightarrow> real \<Rightarrow>
   rng \<Rightarrow> error + (trajectory \<times> rng)" where
  "generate_path force_function shooting_point' path_length configuration_output_frequency
       beta timestep diffusion_coefficient g =
     (let previous_x = shooting_point'
      in generate_path_steps force_function configuration_output_frequency beta timestep
           diffusion_coefficient [0..<path_length] previous_x g [previous_x])"

subsection \<open>Arrays as objects: a store of array cells\<close>

text \<open>
  numpy arrays are mutable objects passed by reference. To state which arrays a
  call changes, an array is an address into a store of array values; creating an
  array (\<open>np.zeros\<close>, \<open>.copy()\<close>, the result of an arithmetic expression) takes
  the next free address.
\<close>

type_synonym addr = nat
type_synonym store = "ndarray list"

definition alloc :: "ndarray \<Rightarrow> store \<Rightarrow> addr \<times> store" where
  "alloc v s = (length s, s @ [v])"

text \<open>
  \<open>update_positions\<close> on references: it reads \<open>current_x\<close> and \<open>force\<close>, and
  \<open>next_x = current_x + dx\<close> is a new array. (\<open>gauss_rand\<close> and \<open>dx\<close> are new
  arrays too; nothing refers to them after the call.)
\<close>

definition update_positions_ref ::
  "addr \<Rightarrow> addr \<Rightarrow> real \<Rightarrow> real \<Rightarrow> real \<Rightarrow> rng \<Rightarrow> store \<Rightarrow> error + (addr \<times> rng \<times> store)" where
  "update_positions_ref current_x force beta dt diffusion_coeff g s =
     (case update_positions (s ! current_x) (s ! force) beta dt diffusion_coeff g of
        Inl e \<Rightarrow> Inl e
      | Inr (next_x, g') \<Rightarrow> (case alloc next_x s of (a, s') \<Rightarrow> Inr (a, g', s')))"

text \<open>
  A force function on references. The notebooks' force functions fill a new
  array (\<open>force = np.zeros(2)\<close>) from the entries of their argument.
\<close>

definition lift_force ::
  "(ndarray \<Rightarrow> error + ndarray) \<Rightarrow> addr \<Rightarrow> store \<Rightarrow> error + (addr \<times> store)" where
  "lift_force force_function current_x s =
     (case force_function (s ! current_x) of
        Inl e \<Rightarrow> Inl e
      | Inr force \<Rightarrow> Inr (alloc force s))"

text \<open>
  What is assumed of a force function passed to path generation: of the arrays
  that exist when it is called, it writes at most to its argument.
\<close>

definition writes_only_argument :: "(addr \<Rightarrow> store \<Rightarrow> error + (addr \<times> store)) \<Rightarrow> bool" where
  "writes_only_argument f =
     (\<forall>a s r s'. a < length s \<and> f a s = Inr (r, s') \<longrightarrow>
        length s \<le> length s' \<and> r < length s' \<and>
        (\<forall>b < length s. b \<noteq> a \<longrightarrow> s' ! b = s ! b))"

text \<open>
  Modelled from the spec: the test of the bounded mode, whether any of the
  state predicates in \<open>state_functions\<close> holds at a configuration.
\<close>

fun any_state :: "(ndarray \<Rightarrow> error + bool) list \<Rightarrow> ndarray \<Rightarrow> error + bool" where
  "any_state [] x = Inr False"
| "any_state (state_function # state_functions) x =
     (case state_function x of
        Inl e \<Rightarrow> Inl e
      | Inr in_state \<Rightarrow> if in_state then Inr True else any_state state_functions x)"

text \<open>
  Modelled from the spec: the loop of \<open>generate_path\<close> on references, left
  open in the notebook: one integrator step per step, \<open>previous_x\<close> rebound to
  the array the integrator returns, every
  \<open>configuration_output_frequency\<close>-th configuration recorded by value.
\<close>

fun generate_path_steps_ref ::
  "(addr \<Rightarrow> store \<Rightarrow> error + (addr \<times> store)) \<Rightarrow> nat \<Rightarrow> real \<Rightarrow> real \<Rightarrow> real \<Rightarrow>
   nat list \<Rightarrow> addr \<Rightarrow> rng \<Rightarrow> trajectory \<Rightarrow> store \<Rightarrow> error + (trajectory \<times> rng \<times> store)" where
  "generate_path_steps_ref force_function configuration_output_frequency beta timestep
       diffusion_coefficient [] previous_x g trajectory s = Inr (trajectory, g, s)"
| "generate_path_steps_ref force_function configuration_output_frequency beta timestep
       diffusion_coefficient (step # steps) previous_x g trajectory s =
     (case force_function previous_x s of
        Inl e \<Rightarrow> Inl e
      | Inr (current_force, s1) \<Rightarrow>
          (case update_positions_ref previous_x current_force beta timestep
                  diffusion_coefficient g s1 of
             Inl e \<Rightarrow> Inl e
           | Inr (next_x, g', s2) \<Rightarrow>
               if configuration_output_frequency = 0 then Inl ZeroDivisionError
               else generate_path_steps_ref force_function configuration_output_frequency beta
                      timestep diffusion_coefficient steps next_x g'
                      (if step mod configuration_output_frequency = 0
                       then trajectory @ [s2 ! next_x] else trajectory) s2))"

text \<open>
  \<open>previous_x = shooting_point.copy()\<close>, a new array, is the notebook's.
  Modelled from the spec: the loop after it.
\<close>

definition generate_path_ref ::
  "(addr \<Rightarrow> store \<Rightarrow> error + (addr \<times> store)) \<Rightarrow> addr \<Rightarrow> nat \<Rightarrow> nat \<Rightarrow> real \<Rightarrow> real \<Rightarrow>
   real \<Rightarrow> rng \<Rightarrow> store \<Rightarrow> error + (trajectory \<times> rng \<times> store)" where
  "generate_path_ref force_function shooting_point' path_length configuration_output_frequency
       beta timestep diffusion_coefficient g s =
     (case alloc (s ! shooting_point') s of
        (previous_x, s1) \<Rightarrow>
          generate_path_steps_ref force_function configuration_output_frequency beta timestep
            diffusion_coefficient [0..<path_length] previous_x g [s1 ! previous_x] s1)"

text \<open>
  Modelled from the spec: the loop of \<open>generate_path_to_state\<close> on references,
  left open in the notebook: as the fixed-length loop, but generation halts as
  soon as a recorded configuration is in one of the states.
\<close>

fun generate_path_to_state_steps_ref ::
  "(addr \<Rightarrow> store \<Rightarrow> error + (addr \<times> store)) \<Rightarrow> (ndarray \<Rightarrow> error + bool) list \<Rightarrow> nat \<Rightarrow>
   real \<Rightarrow> real \<Rightarrow> real \<Rightarrow> nat list \<Rightarrow> addr \<Rightarrow> rng \<Rightarrow> trajectory \<Rightarrow> store \<Rightarrow>
   error + (trajectory \<times> rng \<times> store)" where
  "generate_path_to_state_steps_ref force_function state_functions
       configuration_output_frequency beta timestep diffusion_coefficient []
       previous_x g trajectory s = Inr (trajectory, g, s)"
| "generate_path_to_state_steps_ref force_function state_functions
       configuration_output_frequency beta timestep diffusion_coefficient (step # steps)
       previous_x g trajectory s =
     (case force_function previous_x s of
        Inl e \<Rightarrow> Inl e
      | Inr (current_force, s1) \<Rightarrow>
          (case update_positions_ref previous_x current_force beta timestep
                  diffusion_coefficient g s1 of
             Inl e \<Rightarrow> Inl e
           | Inr (next_x, g', s2) \<Rightarrow>
               if configuration_output_frequency = 0 then Inl ZeroDivisionError
               else if step mod configuration_output_frequency = 0 then
                 (case any_state state_functions (s2 ! next_x) of
                    Inl e \<Rightarrow> Inl e
                  | Inr in_state \<Rightarrow>
                      if in_state then Inr (trajectory @ [s2 ! next_x], g', s2)
                      else generate_path_to_state_steps_ref force_function state_functions
                             configuration_output_frequency beta timestep
                             diffusion_coefficient steps next_x g'
                             (trajectory @ [s2 ! next_x]) s2)
               else generate_path_to_state_steps_ref force_function state_functions
                      configuration_output_frequency beta timestep diffusion_coefficient
                      steps next_x g' trajectory s2))"

text \<open>
  \<open>previous_x = shooting_point.copy()\<close> is the notebook's. Modelled from the
  spec: the rest; a start that is already in a state gives the trajectory of
  that one point.
\<close>

definition generate_path_to_state_ref ::
  "(addr \<Rightarrow> store \<Rightarrow> error + (addr \<times> store)) \<Rightarrow> addr \<Rightarrow> nat \<Rightarrow>
   (ndarray \<Rightarrow> error + bool) list \<Rightarrow> nat \<Rightarrow> real \<Rightarrow> real \<Rightarrow> real \<Rightarrow> rng \<Rightarrow> store \<Rightarrow>
   error + (trajectory \<times> rng \<times> store)" where
  "generate_path_to_state_ref force_function shooting_point' path_length state_functions
       configuration_output_frequency beta timestep diffusion_coefficient g s =
     (case alloc (s ! shooting_point') s of
        (previous_x, s1) \<Rightarrow>
          (case any_state state_functions (s1 ! previous_x) of
             Inl e \<Rightarrow> Inl e
           | Inr in_state \<Rightarrow>
               if in_state then Inr ([s1 ! previous_x], g, s1)
               else generate_path_to_state_steps_ref force_function state_functions
                      configuration_output_frequency beta timestep diffusion_coefficient
                      [0..<path_length] previous_x g [s1 ! previous_x] s1))"

subsection \<open>Replica exchange\<close>

text \<open>The double-well energy of the replica-exchange notebook.\<close>

definition custom_potential_energy :: "ndarray \<Rightarrow> error + real" where
  "custom_potential_energy current_x =
     (if length current_x < 2 then Inl IndexError
      else Inr (10 * (((current_x ! 0)\<^sup>2 - 1)\<^sup>2 + (current_x ! 0 - current_x ! 1)\<^sup>2)))"

text \<open>
  The loop's variables: the replicas' configurations and
  \<open>exchange_matrix = np.zeros((N_replicas, N_replicas), dtype=int)\<close>.
\<close>

record remd_state =
  replica_x :: "ndarray list"
  exchange_matrix :: "int list list"

definition zeros_matrix :: "nat \<Rightarrow> int list list" where
  "zeros_matrix n = replicate n (replicate n 0)"

text \<open>
  Modelled from the spec: the choice of the pair, left open in the notebook.
  The spec asks for two replica indices \<open>i \<noteq> j\<close>, an attempt of a replica
  with itself being prevented structurally, by resampling or by excluding the
  index from the range. The choice made here is the exclusion: \<open>i\<close> is drawn
  from \<open>[0, N)\<close> and \<open>j\<close> from the \<open>N - 1\<close> other indices, as \<open>i\<close> plus
  an offset of \<open>[1, N)\<close> modulo \<open>N\<close>. The two raw random integers are
  reduced into these ranges.
\<close>

definition exchange_pair :: "nat \<Rightarrow> nat \<Rightarrow> nat \<Rightarrow> nat \<times> nat" where
  "exchange_pair N_replicas raw_i raw_j =
     (let i = raw_i mod N_replicas;
          j = (i + 1 + raw_j mod (N_replicas - 1)) mod N_replicas
      in (i, j))"

text \<open>
  Modelled from the spec: the update of a counter,
  \<open>exchange_matrix[i, j] += 1\<close>; the notebook only creates the matrix.
\<close>

definition count_entry :: "nat \<Rightarrow> nat \<Rightarrow> int list list \<Rightarrow> error + int list list" where
  "count_entry i j m =
     (if i < length m \<and> j < length (m ! i)
      then Inr (m[i := (m ! i)[j := m ! i ! j + 1]])
      else Inl IndexError)"

text \<open>
  Modelled from the spec: the counters of the attempted pair. The spec's
  matrix is symmetric in the index pair, so an attempt between \<open>i\<close> and \<open>j\<close>
  counts at \<open>[i, j]\<close> and at \<open>[j, i]\<close>.
\<close>

definition count_exchange :: "nat \<Rightarrow> nat \<Rightarrow> int list list \<Rightarrow> error + int list list" where
  "count_exchange i j m = bind_err (count_entry i j m) (count_entry j i)"

text \<open>
  Modelled from the spec: on acceptance the two replicas' configurations are
  swapped, not their temperatures.
\<close>

definition swap_configurations :: "nat \<Rightarrow> nat \<Rightarrow> ndarray list \<Rightarrow> ndarray list" where
  "swap_configurations i j xs = xs[i := xs ! j, j := xs ! i]"

text \<open>
  Modelled from the spec: the block under \<open>Attempt Exchange\<close>, left open in
  the notebook. The spec: with fewer than two replicas no exchange is possible
  and nothing is attempted, without an error; otherwise, for the pair \<open>i\<close>,
  \<open>j\<close>, compute \<open>delta_U = U(x_i) - U(x_j)\<close>, accept with probability
  \<open>min(1, exp(-delta_U * (beta_i - beta_j)))\<close> against a uniform draw, swap the
  two configurations on acceptance, and update the exchange-matrix counters of
  the attempted pair on every attempt, accepted or not.
\<close>

definition attempt_exchange ::
  "(ndarray \<Rightarrow> error + real) \<Rightarrow> real list \<Rightarrow> nat \<times> nat \<times> real \<Rightarrow> remd_state \<Rightarrow>
   error + remd_state" where
  "attempt_exchange potential_energy beta_range draw st =
     (case draw of (raw_i, raw_j, uniform_draw) \<Rightarrow>
        if length beta_range < 2 then Inr st
        else
          (case exchange_pair (length beta_range) raw_i raw_j of (i, j) \<Rightarrow>
             if \<not> (i < length (replica_x st) \<and> j < length (replica_x st))
             then Inl IndexError
             else
               bind_err (potential_energy (replica_x st ! i)) (\<lambda>U_i.
               bind_err (potential_energy (replica_x st ! j)) (\<lambda>U_j.
               bind_err (count_exchange i j (exchange_matrix st)) (\<lambda>m.
                 let delta_U = U_i - U_j;
                     p_acc = min 1 (exp (- delta_U * (beta_range ! i - beta_range ! j)))
                 in Inr \<lparr>replica_x =
                           (if uniform_draw < p_acc
                            then swap_configurations i j (replica_x st) else replica_x st),
                         exchange_matrix = m\<rparr>)))))"

text \<open>
  \<open>for step in range(total_steps)\<close>: the propagation of the replicas (left open
  in the notebook; a parameter here, which may raise), then
  \<open>if step % exchange_frequency != 0: continue\<close>, then the attempt with the
  step's random draws.
\<close>

fun remd_loop ::
  "(nat \<Rightarrow> ndarray list \<Rightarrow> error + ndarray list) \<Rightarrow> (ndarray \<Rightarrow> error + real) \<Rightarrow> real list \<Rightarrow>
   nat \<Rightarrow> (nat \<Rightarrow> nat \<times> nat \<times> real) \<Rightarrow> nat list \<Rightarrow> remd_state \<Rightarrow> error + remd_state" where
  "remd_loop propagate potential_energy beta_range exchange_frequency draws [] st = Inr st"
| "remd_loop propagate potential_energy beta_range exchange_frequency draws (step # steps) st =
     (case propagate step (replica_x st) of
        Inl e \<Rightarrow> Inl e
      | Inr xs \<Rightarrow>
          if exchange_frequency = 0 then Inl ZeroDivisionError
          else if step mod exchange_frequency \<noteq> 0
            then remd_loop propagate potential_energy beta_range exchange_frequency draws steps
                   (st\<lparr>replica_x := xs\<rparr>)
          else
            (case attempt_exchange potential_energy beta_range (draws step)
                    (st\<lparr>replica_x := xs\<rparr>) of
               Inl e \<Rightarrow> Inl e
             | Inr st' \<Rightarrow>
                 remd_loop propagate potential_energy beta_range exchange_frequency draws
                   steps st'))"

text \<open>
  The run: \<open>N_replicas = len(beta_range)\<close> and the zero matrix are the
  notebook's. Modelled from the spec: every replica starts at \<open>initial_x\<close>
  (the initialisation is left open in the notebook).
\<close>

definition remd ::
  "(nat \<Rightarrow> ndarray list \<Rightarrow> error + ndarray list) \<Rightarrow> (ndarray \<Rightarrow> error + real) \<Rightarrow> real list \<Rightarrow>
   nat \<Rightarrow> (nat \<Rightarrow> nat \<times> nat \<times> real) \<Rightarrow> nat \<Rightarrow> ndarray \<Rightarrow> error + remd_state" where
  "remd propagate potential_energy beta_range exchange_frequency draws total_steps initial_x =
     (let N_replicas = length beta_range
      in remd_loop propagate potential_energy beta_range exchange_frequency draws
           [0..<total_steps]
           \<lparr>replica_x = replicate N_replicas initial_x,
            exchange_matrix = zeros_matrix N_replicas\<rparr>)"






section \<open>Properties\<close>

subsection \<open>The integrator\<close>

lemma randn_length: "length (fst (randn n g)) = n"
  by (simp add: randn_def)

lemma update_positions_ok:
  assumes "dt > 0" "diffusion_coeff > 0" "beta > 0" "length force = length current_x"
  shows "update_positions current_x force beta dt diffusion_coeff g =
    Inr (map (\<lambda>i. current_x ! i + (diffusion_coeff * dt * force ! i * beta
                 + sqrt (2 * diffusion_coeff * dt) * g i)) [0..<length current_x],
         \<lambda>i. g (i + length current_x))"
proof -
  let ?n = "length current_x"
  let ?dx = "map2 (\<lambda>f r. diffusion_coeff * dt * f * beta
                 + sqrt (2 * diffusion_coeff * dt) * r) force (map g [0..<?n])"
  have len: "length ?dx = ?n"
    using assms(4) by simp
  have "map2 (+) current_x ?dx =
        map (\<lambda>i. current_x ! i + (diffusion_coeff * dt * force ! i * beta
                 + sqrt (2 * diffusion_coeff * dt) * g i)) [0..<?n]"
    using assms(4) len by (intro nth_equalityI) simp_all
  then show ?thesis
    using assms by (simp add: update_positions_def randn_def shape_def)
qed

text \<open>
  Claim C2. With a positive time step, diffusion coefficient and inverse
  temperature and a force of the configuration's shape, one integrator step
  returns \<open>x + D * beta * force * dt + sqrt (2 * D * dt) * xi\<close> coordinate by
  coordinate, where \<open>xi\<close> is the vector drawn by \<open>randn\<close> (coordinate \<open>i\<close> uses
  its own draw, the \<open>i\<close>-th one of the source), and the result has the shape of \<open>x\<close>.
\<close>

theorem update_positions_step:
  assumes "dt > 0" "D > 0" "beta > 0" "shape force = shape x"
  shows "\<exists>x' xi g'. update_positions x force beta dt D g = Inr (x', g')
           \<and> randn (shape x) g = (xi, g')
           \<and> shape xi = shape x \<and> (\<forall>i < shape x. xi ! i = g i)
           \<and> shape x' = shape x
           \<and> (\<forall>i < shape x.
                 x' ! i = x ! i + D * beta * force ! i * dt + sqrt (2 * D * dt) * xi ! i)"
  using assms update_positions_ok [of dt D beta force x g]
  by (simp add: shape_def randn_def algebra_simps)

theorem update_positions_step_witness:
  "update_positions [1, 2] [4, -2] 1 (1/2) 1 (\<lambda>i. real i) = Inr ([3, 2], \<lambda>i. real (i + 2))"
proof -
  have h: "(1/2::real) > 0" "(1::real) > 0" "shape [4, -2] = shape [1, 2::real]"
    by (simp_all add: shape_def)
  from update_positions_step [OF h(1) h(2) h(2) h(3), of "\<lambda>i. real i"]
  obtain x' xi g' where r: "update_positions [1, 2] [4, -2] 1 (1/2) 1 (\<lambda>i. real i) = Inr (x', g')"
    and d: "randn (shape [1, 2::real]) (\<lambda>i. real i) = (xi, g')"
    and s: "shape x' = shape [1, 2::real]"
    and v: "\<forall>i < shape [1, 2::real].
         x' ! i = [1, 2] ! i + 1 * 1 * [4, -2] ! i * (1/2) + sqrt (2 * 1 * (1/2)) * xi ! i"
    by blast
  have xi: "xi = [0, 1]" and g': "g' = (\<lambda>i. real (i + 2))"
    using d by (simp_all add: randn_def shape_def upt_rec)
  have "length x' = 2" using s by (simp add: shape_def)
  moreover have "x' ! 0 = 3" "x' ! 1 = 2"
    using v xi by (simp_all add: shape_def)
  ultimately have "x' = [3, 2]"
    by (intro nth_equalityI) (auto simp: less_Suc_eq numeral_2_eq_2)
  with r g' show ?thesis by simp
qed

text \<open>
  Claim C9. The integrator fails fast: a call raises the assertion error, and
  so returns no updated position, exactly when the time step, the diffusion
  coefficient or the inverse temperature is not positive or the force's shape
  differs from the configuration's; the first violated assertion, in the
  source's order, gives the message. Under the four preconditions the call
  returns a position.
\<close>

theorem update_positions_fail_fast:
  "(dt \<le> 0 \<longrightarrow>
      update_positions x force beta dt D g = Inl (AssertionError ''Timestep must be positive.''))
   \<and> (D \<le> 0 \<or> beta \<le> 0 \<or> shape force \<noteq> shape x \<longrightarrow>
      (\<exists>msg. update_positions x force beta dt D g = Inl (AssertionError msg)))
   \<and> (dt > 0 \<and> D > 0 \<and> beta > 0 \<and> shape force = shape x \<longrightarrow>
      (\<exists>r. update_positions x force beta dt D g = Inr r))"
  by (simp add: update_positions_def split: prod.split)

theorem update_positions_fail_fast_witness:
  "update_positions [1, 2] [4, -2] 1 0 1 (\<lambda>i. 0) = Inl (AssertionError ''Timestep must be positive.'')
   \<and> (\<exists>msg. update_positions [1, 2] [4, -2] 1 1 (-1) (\<lambda>i. 0) = Inl (AssertionError msg))
   \<and> (\<exists>msg. update_positions [1, 2] [4] 1 1 1 (\<lambda>i. 0) = Inl (AssertionError msg))
   \<and> (\<exists>r. update_positions [1, 2] [4, -2] 1 1 1 (\<lambda>i. 0) = Inr r)"
  using update_positions_fail_fast [of 0 "[1, 2]" "[4, -2]" 1 1 "\<lambda>i. 0"]
        update_positions_fail_fast [of 1 "[1, 2]" "[4, -2]" 1 "-1" "\<lambda>i. 0"]
        update_positions_fail_fast [of 1 "[1, 2]" "[4]" 1 1 "\<lambda>i. 0"]
        update_positions_fail_fast [of 1 "[1, 2]" "[4, -2]" 1 1 "\<lambda>i. 0"]
  by (simp add: shape_def)

subsection \<open>The running average\<close>

text \<open>
  Claim C3. What the code does at the first sample: the update at step index
  0 returns the step index, 0, for every sample and prior accumulator, where the
  claim asks for the sample. Both perturbation runs of the notebook call the
  helper with the frame index counted from 0, so the first Zwanzig factor never
  enters the average: after the samples 5 and 7 the recorded running averages
  are 0, 0 and 7, and the mean of the two samples, 6, is not among them; in
  general the recorded averages do not depend on the first sample.
\<close>

theorem running_average_discards_first_sample:
  "running_average x 0 a = 0
   \<and> running_average 5 0 7 = 0
   \<and> zwanzig_running_averages [5, 7] = [0, 0, 7]
   \<and> zwanzig_running_averages (z # samples) = zwanzig_running_averages (z' # samples)"
  by (simp add: running_average_def zwanzig_running_averages_def numeral_3_eq_3)

subsection \<open>Transition path sampling\<close>

lemma bind_err_Inr_iff: "bind_err m f = Inr r \<longleftrightarrow> (\<exists>v. m = Inr v \<and> f v = Inr r)"
  by (cases m) (simp_all add: bind_err_def)

lemma bind_err_Inr [simp]: "bind_err (Inr v) f = f v"
  by (simp add: bind_err_def)

lemma bind_err_Inl [simp]: "bind_err (Inl e) f = Inl e"
  by (simp add: bind_err_def)

lemma endpoint_Inr_iff: "endpoint trj = Inr x \<longleftrightarrow> trj \<noteq> [] \<and> x = last trj"
  by (auto simp: endpoint_def)

lemma check_endpoints_eval:
  assumes "forward_trj p \<noteq> []" "reverse_trj p \<noteq> []"
    "in_A (last (forward_trj p)) = Inr fw_in_A" "in_B (last (forward_trj p)) = Inr fw_in_B"
    "in_A (last (reverse_trj p)) = Inr rv_in_A" "in_B (last (reverse_trj p)) = Inr rv_in_B"
  shows "check_endpoints in_A in_B p = Inr (is_reactive_path fw_in_A fw_in_B rv_in_A rv_in_B)"
  using assms by (simp add: check_endpoints_def endpoint_def)

lemma check_endpoints_nonempty:
  assumes "check_endpoints in_A in_B p = Inr r"
  shows "forward_trj p \<noteq> [] \<and> reverse_trj p \<noteq> []"
  using assms by (auto simp: check_endpoints_def bind_err_Inr_iff endpoint_Inr_iff)

lemma add_path_to_ensemble_Inr:
  assumes "add_path_to_ensemble eq freq trial st = Inr st'"
  shows "current_path st' = current_path st"
    "accepted_trials st' = accepted_trials st"
    "accepted_shooting_points st' = accepted_shooting_points st"
    "trajectory_ensemble st' =
       (if trial > eq \<and> trial mod freq = 0
        then trajectory_ensemble st @ [current_path st] else trajectory_ensemble st)"
  using assms by (auto simp: add_path_to_ensemble_def split: if_splits)

lemma add_path_to_ensemble_total:
  assumes "trial > eq \<longrightarrow> freq > 0"
  shows "\<exists>st'. add_path_to_ensemble eq freq trial st = Inr st'"
  using assms by (auto simp: add_path_to_ensemble_def)

lemma fixed_length_trial_Inr:
  assumes "fixed_length_trial in_A in_B eq freq trial p st = Inr st'"
  shows "\<exists>reactive. check_endpoints in_A in_B p = Inr reactive \<and>
     add_path_to_ensemble eq freq trial (if reactive then accept_move p st else st) = Inr st'"
  using assms by (simp add: fixed_length_trial_def bind_err_Inr_iff)

lemma flexible_length_trial_Inr:
  assumes "flexible_length_trial in_A in_B eq freq trial p u st = Inr st'"
  shows "\<exists>reactive ratio. check_endpoints in_A in_B p = Inr reactive \<and>
     (reactive \<longrightarrow> length_ratio (N_old (current_path st)) (N_new p) = Inr ratio) \<and>
     add_path_to_ensemble eq freq trial
       (if reactive \<and> accept_draw u ratio then accept_move p st else st) = Inr st'"
  using assms
  by (auto simp: flexible_length_trial_def bind_err_Inr_iff split: if_splits)

lemma trial_outcome:
  assumes "fixed_length_trial in_A in_B eq freq trial p st = Inr st'
         \<or> flexible_length_trial in_A in_B eq freq trial p u st = Inr st'"
  shows "\<exists>mid. (mid = st \<or> mid = accept_move p st) \<and>
           add_path_to_ensemble eq freq trial mid = Inr st'"
  using assms
proof
  assume "fixed_length_trial in_A in_B eq freq trial p st = Inr st'"
  from fixed_length_trial_Inr [OF this] show ?thesis by (metis (full_types))
next
  assume "flexible_length_trial in_A in_B eq freq trial p u st = Inr st'"
  from flexible_length_trial_Inr [OF this] show ?thesis by (metis (full_types))
qed

text \<open>
  Claim C5. A fixed-length trial whose endpoint classifications are computed
  (both sub-trajectories non-empty, the indicators defined at their last points)
  takes no random draw: it is accepted, the path replaced, the counter
  incremented and the shooting point recorded, exactly when the forward end is in
  B and the backward end in A, or the forward end in A and the backward end in B;
  otherwise path, counter and accepted shooting points stay as they were. With
  states that do not overlap at the endpoints, a proposal whose two ends lie in
  the same state, or with an end in neither state, is rejected.
\<close>

theorem fixed_length_acceptance:
  assumes "forward_trj p \<noteq> []" "reverse_trj p \<noteq> []"
    "in_A (last (forward_trj p)) = Inr fw_in_A" "in_B (last (forward_trj p)) = Inr fw_in_B"
    "in_A (last (reverse_trj p)) = Inr rv_in_A" "in_B (last (reverse_trj p)) = Inr rv_in_B"
    "freq > 0"
  shows "\<exists>st'. fixed_length_trial in_A in_B eq freq trial p st = Inr st'
      \<and> (((fw_in_B \<and> rv_in_A) \<or> (fw_in_A \<and> rv_in_B)) \<longrightarrow>
            current_path st' = rev (reverse_trj p) @ tl (forward_trj p)
            \<and> accepted_trials st' = accepted_trials st + 1
            \<and> accepted_shooting_points st' = accepted_shooting_points st @ [shooting_point p])
      \<and> (\<not> ((fw_in_B \<and> rv_in_A) \<or> (fw_in_A \<and> rv_in_B)) \<longrightarrow>
            current_path st' = current_path st
            \<and> accepted_trials st' = accepted_trials st
            \<and> accepted_shooting_points st' = accepted_shooting_points st)
      \<and> (\<not> (fw_in_A \<and> fw_in_B) \<and> \<not> (rv_in_A \<and> rv_in_B) \<and>
           ((fw_in_A \<and> rv_in_A) \<or> (fw_in_B \<and> rv_in_B)
            \<or> (\<not> fw_in_A \<and> \<not> fw_in_B) \<or> (\<not> rv_in_A \<and> \<not> rv_in_B)) \<longrightarrow>
            current_path st' = current_path st \<and> accepted_trials st' = accepted_trials st)"
proof -
  let ?r = "is_reactive_path fw_in_A fw_in_B rv_in_A rv_in_B"
  let ?mid = "if ?r then accept_move p st else st"
  have ce: "check_endpoints in_A in_B p = Inr ?r"
    using assms(1-6) by (rule check_endpoints_eval)
  obtain st' where a: "add_path_to_ensemble eq freq trial ?mid = Inr st'"
    using add_path_to_ensemble_total [of eq trial freq ?mid] assms(7) by blast
  have run: "fixed_length_trial in_A in_B eq freq trial p st = Inr st'"
    using ce a by (simp add: fixed_length_trial_def)
  note keep = add_path_to_ensemble_Inr(1-3) [OF a]
  show ?thesis
    using run keep by (auto simp: is_reactive_path_def accept_move_def)
qed

lemma sampling_loop_ensemble:
  assumes step: "\<And>t st st'. body t st = Inr st' \<Longrightarrow>
       trajectory_ensemble st' =
         (if gate t then trajectory_ensemble st @ [current_path st'] else trajectory_ensemble st)
       \<and> (accepted_trials st' = accepted_trials st \<longrightarrow> current_path st' = current_path st)
       \<and> accepted_trials st \<le> accepted_trials st'"
    and run: "sampling_loop body ts st = Inr st'"
  shows "accepted_trials st \<le> accepted_trials st'
    \<and> length (trajectory_ensemble st') = length (trajectory_ensemble st) + length (filter gate ts)
    \<and> (accepted_trials st' = accepted_trials st \<longrightarrow>
         current_path st' = current_path st \<and>
         trajectory_ensemble st' =
           trajectory_ensemble st @ replicate (length (filter gate ts)) (current_path st))"
  using run
proof (induction ts arbitrary: st)
  case Nil
  then show ?case by simp
next
  case (Cons t ts)
  from Cons.prems obtain mid where b: "body t st = Inr mid"
    and r: "sampling_loop body ts mid = Inr st'"
    by (auto simp: bind_err_Inr_iff)
  note s = step [OF b]
  note ih = Cons.IH [OF r]
  show ?case
  proof (intro conjI impI)
    show "accepted_trials st \<le> accepted_trials st'" using s ih by linarith
    show "length (trajectory_ensemble st') =
        length (trajectory_ensemble st) + length (filter gate (t # ts))"
      using s ih by simp
  next
    assume e: "accepted_trials st' = accepted_trials st"
    then have e1: "accepted_trials mid = accepted_trials st"
      and e2: "accepted_trials st' = accepted_trials mid"
      using s ih by linarith+
    then show "current_path st' = current_path st" using s ih by simp
    show "trajectory_ensemble st' =
        trajectory_ensemble st @ replicate (length (filter gate (t # ts))) (current_path st)"
      using s ih e1 e2 by (simp add: replicate_app_Cons_same)
  qed
qed

lemma trial_step_facts:
  assumes "fixed_length_trial in_A in_B eq freq trial p st = Inr st'
         \<or> flexible_length_trial in_A in_B eq freq trial p u st = Inr st'"
  shows "trajectory_ensemble st' =
         (if trial > eq \<and> trial mod freq = 0
          then trajectory_ensemble st @ [current_path st'] else trajectory_ensemble st)
       \<and> (accepted_trials st' = accepted_trials st \<longrightarrow> current_path st' = current_path st)
       \<and> accepted_trials st \<le> accepted_trials st'"
proof -
  obtain mid where m: "mid = st \<or> mid = accept_move p st"
    and a: "add_path_to_ensemble eq freq trial mid = Inr st'"
    using trial_outcome [OF assms(1)] by blast
  note keep = add_path_to_ensemble_Inr [OF a]
  from m show ?thesis
  proof
    assume "mid = st"
    then show ?thesis using keep by simp
  next
    assume "mid = accept_move p st"
    then show ?thesis using keep by (simp add: accept_move_def)
  qed
qed

lemma fixed_length_tps_ensemble:
  assumes "fixed_length_tps in_A in_B eq freq propose total_trials path = Inr final"
  shows "length (trajectory_ensemble final)
           = length (filter (\<lambda>t. t > eq \<and> t mod freq = 0) [0..<total_trials])
       \<and> (accepted_trials final = 0 \<longrightarrow>
            trajectory_ensemble final
              = replicate (length (filter (\<lambda>t. t > eq \<and> t mod freq = 0) [0..<total_trials])) path)"
proof -
  let ?body = "\<lambda>trial st. fixed_length_trial in_A in_B eq freq
          trial (propose trial (current_path st)) st"
  have run: "sampling_loop ?body [0..<total_trials] (initial_tps_state path) = Inr final"
    using assms by (simp only: fixed_length_tps_def)
  have step: "\<And>t st st'. ?body t st = Inr st' \<Longrightarrow>
       trajectory_ensemble st' =
         (if t > eq \<and> t mod freq = 0
          then trajectory_ensemble st @ [current_path st'] else trajectory_ensemble st)
       \<and> (accepted_trials st' = accepted_trials st \<longrightarrow> current_path st' = current_path st)
       \<and> accepted_trials st \<le> accepted_trials st'"
    by (rule trial_step_facts) (rule disjI1)
  from sampling_loop_ensemble [of ?body "\<lambda>t. t > eq \<and> t mod freq = 0", OF step run]
  show ?thesis by (simp add: initial_tps_state_def)
qed

lemma flexible_length_tps_ensemble:
  assumes "flexible_length_tps in_A in_B eq freq propose total_trials path = Inr final"
  shows "length (trajectory_ensemble final)
           = length (filter (\<lambda>t. t > eq \<and> t mod freq = 0) [0..<total_trials])
       \<and> (accepted_trials final = 0 \<longrightarrow>
            trajectory_ensemble final
              = replicate (length (filter (\<lambda>t. t > eq \<and> t mod freq = 0) [0..<total_trials])) path)"
proof -
  let ?body = "\<lambda>trial st. flexible_length_trial in_A in_B eq freq
          trial (fst (propose trial (current_path st))) (snd (propose trial (current_path st))) st"
  have run: "sampling_loop ?body [0..<total_trials] (initial_tps_state path) = Inr final"
    using assms by (simp only: flexible_length_tps_def)
  have step: "\<And>t st st'. ?body t st = Inr st' \<Longrightarrow>
       trajectory_ensemble st' =
         (if t > eq \<and> t mod freq = 0
          then trajectory_ensemble st @ [current_path st'] else trajectory_ensemble st)
       \<and> (accepted_trials st' = accepted_trials st \<longrightarrow> current_path st' = current_path st)
       \<and> accepted_trials st \<le> accepted_trials st'"
    by (rule trial_step_facts) (rule disjI2)
  from sampling_loop_ensemble [of ?body "\<lambda>t. t > eq \<and> t mod freq = 0", OF step run]
  show ?thesis by (simp add: initial_tps_state_def)
qed

lemma length_ratio_reactive:
  assumes "check_endpoints in_A in_B p = Inr r"
  shows "length_ratio (N_old path) (N_new p) =
     Inr ((real (length path) - 1) /
          (real (length (forward_trj p)) + real (length (reverse_trj p)) - 1))"
proof -
  have "length (forward_trj p) \<noteq> 0" "length (reverse_trj p) \<noteq> 0"
    using check_endpoints_nonempty [OF assms] by simp_all
  then have "N_new p \<noteq> 0"
    unfolding N_new_def by linarith
  then show ?thesis
    by (simp add: length_ratio_def N_old_def N_new_def)
qed

text \<open>
  Claim C1. For a reactive proposal the flexible-length trial computes
  \<open>length_ratio = N_old / N_new\<close> with \<open>N_old = len(current_path) - 1\<close> and
  \<open>N_new = len(forward) + len(backward) - 1\<close>, and accepts exactly when the uniform
  draw lies below \<open>min(1, length_ratio)\<close>; the accepting draws of \<open>[0, 1)\<close> are
  the interval from 0 to that probability. With \<open>N_old = 100\<close> the probability
  is 1 for \<open>N_new = 50\<close> and 1/2 for \<open>N_new = 200\<close>.
\<close>

theorem flexible_length_acceptance:
  assumes "check_endpoints in_A in_B p = Inr True" "freq > 0"
  shows "\<exists>ratio st'.
      length_ratio (N_old (current_path st)) (N_new p) = Inr ratio
    \<and> ratio = (real (length (current_path st)) - 1) /
               (real (length (forward_trj p)) + real (length (reverse_trj p)) - 1)
    \<and> flexible_length_trial in_A in_B eq freq trial p u st = Inr st'
    \<and> (u < min 1 ratio \<longrightarrow>
          accepted_trials st' = accepted_trials st + 1
          \<and> current_path st' = rev (reverse_trj p) @ tl (forward_trj p))
    \<and> (\<not> u < min 1 ratio \<longrightarrow>
          accepted_trials st' = accepted_trials st \<and> current_path st' = current_path st)
    \<and> {v. 0 \<le> v \<and> v < 1 \<and> accept_draw v ratio} = {0..<acceptance_probability ratio}
    \<and> acceptance_probability ratio = min 1 ratio
    \<and> bind_err (length_ratio 100 50) (\<lambda>r. Inr (acceptance_probability r)) = Inr 1
    \<and> bind_err (length_ratio 100 200) (\<lambda>r. Inr (acceptance_probability r)) = Inr (1/2)"
proof -
  define ratio where "ratio = (real (length (current_path st)) - 1) /
               (real (length (forward_trj p)) + real (length (reverse_trj p)) - 1)"
  let ?mid = "if accept_draw u ratio then accept_move p st else st"
  have lr: "length_ratio (N_old (current_path st)) (N_new p) = Inr ratio"
    unfolding ratio_def using assms(1) by (rule length_ratio_reactive)
  obtain st' where a: "add_path_to_ensemble eq freq trial ?mid = Inr st'"
    using add_path_to_ensemble_total [of eq trial freq ?mid] assms(2) by blast
  have run: "flexible_length_trial in_A in_B eq freq trial p u st = Inr st'"
    using assms(1) lr a by (simp add: flexible_length_trial_def)
  note keep = add_path_to_ensemble_Inr(1,2) [OF a]
  have acc: "u < min 1 ratio \<longrightarrow>
          accepted_trials st' = accepted_trials st + 1
          \<and> current_path st' = rev (reverse_trj p) @ tl (forward_trj p)"
    using keep by (simp add: accept_draw_def acceptance_probability_def accept_move_def)
  have rej: "\<not> u < min 1 ratio \<longrightarrow>
          accepted_trials st' = accepted_trials st \<and> current_path st' = current_path st"
    using keep by (simp add: accept_draw_def acceptance_probability_def)
  have draws: "{v. 0 \<le> v \<and> v < 1 \<and> accept_draw v ratio} = {0..<acceptance_probability ratio}"
    by (auto simp: accept_draw_def acceptance_probability_def)
  have c1: "bind_err (length_ratio 100 50) (\<lambda>r. Inr (acceptance_probability r)) = Inr 1"
    by (simp add: length_ratio_def acceptance_probability_def)
  have c2: "bind_err (length_ratio 100 200) (\<lambda>r. Inr (acceptance_probability r)) = Inr (1/2)"
    by (simp add: length_ratio_def acceptance_probability_def)
  show ?thesis
    using lr run acc rej draws c1 c2 ratio_def acceptance_probability_def by blast
qed

lemma state_A_indicator_pair [simp]:
  "state_A_indicator [a, b] = Inr (a + b < - 2)"
  by (simp add: state_A_indicator_def custom_bounded_state_def custom_cv_def)

lemma state_B_indicator_pair [simp]:
  "state_B_indicator [a, b] = Inr (a + b > 2)"
  by (simp add: state_B_indicator_def custom_bounded_state_def custom_cv_def)

theorem flexible_length_acceptance_witness:
  "flexible_length_trial state_A_indicator state_B_indicator 0 1 1
     \<lparr>shooting_point = [0, 0], forward_trj = [[0, 0], [2, 2]],
      reverse_trj = [[0, 0], [- 2, - 2]]\<rparr> (3/4)
     (initial_tps_state [[- 2, - 2], [- 1, - 1], [1, 1], [2, 2]])
   = Inr \<lparr>current_path = [[- 2, - 2], [0, 0], [2, 2]], accepted_shooting_points = [[0, 0]],
          accepted_trials = 1, trajectory_ensemble = [[[- 2, - 2], [0, 0], [2, 2]]]\<rparr>
   \<and> length_ratio (N_old [[- 2, - 2], [- 1, - 1], [1, 1], [2, 2]])
        (N_new \<lparr>shooting_point = [0, 0], forward_trj = [[0, 0], [2, 2]],
                reverse_trj = [[0, 0], [- 2, - 2]]\<rparr>) = Inr 1"
proof -
  let ?p = "\<lparr>shooting_point = [0, 0], forward_trj = [[0, 0], [2, 2]],
      reverse_trj = [[0, 0], [- 2, - 2::real]]\<rparr>"
  let ?st = "initial_tps_state [[- 2, - 2], [- 1, - 1], [1, 1], [2, 2]]"
  have h: "check_endpoints state_A_indicator state_B_indicator ?p = Inr True"
    by (simp add: check_endpoints_def endpoint_def is_reactive_path_def)
  from flexible_length_acceptance [OF h, of 1 ?st 0 1 "3/4"]
  obtain ratio st' where
    r: "length_ratio (N_old (current_path ?st)) (N_new ?p) = Inr ratio"
    and t: "flexible_length_trial state_A_indicator state_B_indicator 0 1 1 ?p (3/4) ?st = Inr st'"
    by auto
  have "ratio = 1"
    using r by (simp add: length_ratio_def N_old_def N_new_def initial_tps_state_def)
  moreover have "st' = \<lparr>current_path = [[- 2, - 2], [0, 0], [2, 2]],
          accepted_shooting_points = [[0, 0]],
          accepted_trials = 1, trajectory_ensemble = [[[- 2, - 2], [0, 0], [2, 2]]]\<rparr>"
    using t h
    by (simp add: flexible_length_trial_def length_ratio_def N_old_def N_new_def
        initial_tps_state_def accept_draw_def acceptance_probability_def accept_move_def
        add_path_to_ensemble_def)
  ultimately show ?thesis using r t by (simp add: initial_tps_state_def)
qed

lemma fixed_length_trial_example_accept:
  "fixed_length_trial state_A_indicator state_B_indicator 0 1 1
     \<lparr>shooting_point = [0, 0], forward_trj = [[0, 0], [2, 2]],
      reverse_trj = [[0, 0], [- 2, - 2]]\<rparr>
     (initial_tps_state [[- 1, - 1], [1, 1]])
   = Inr \<lparr>current_path = [[- 2, - 2], [0, 0], [2, 2]], accepted_shooting_points = [[0, 0]],
          accepted_trials = 1, trajectory_ensemble = [[[- 2, - 2], [0, 0], [2, 2]]]\<rparr>"
  by (simp add: fixed_length_trial_def check_endpoints_def endpoint_def is_reactive_path_def
      initial_tps_state_def accept_move_def add_path_to_ensemble_def)

lemma upt_0_3: "[0..<3] = [0, 1, 2]"
  by (simp add: upt_rec)

theorem fixed_length_acceptance_witness:
  "fixed_length_trial state_A_indicator state_B_indicator 0 1 1
     \<lparr>shooting_point = [0, 0], forward_trj = [[0, 0], [2, 2]],
      reverse_trj = [[0, 0], [- 2, - 2]]\<rparr>
     (initial_tps_state [[- 1, - 1], [1, 1]])
   = Inr \<lparr>current_path = [[- 2, - 2], [0, 0], [2, 2]], accepted_shooting_points = [[0, 0]],
          accepted_trials = 1, trajectory_ensemble = [[[- 2, - 2], [0, 0], [2, 2]]]\<rparr>"
proof -
  let ?p = "\<lparr>shooting_point = [0, 0], forward_trj = [[0, 0], [2, 2]],
      reverse_trj = [[0, 0], [- 2, - 2::real]]\<rparr>"
  let ?st = "initial_tps_state [[- 1, - 1], [1, 1]]"
  have "\<exists>st'. fixed_length_trial state_A_indicator state_B_indicator 0 1 1 ?p ?st = Inr st'
      \<and> (((True \<and> True) \<or> (False \<and> False)) \<longrightarrow>
            current_path st' = rev (reverse_trj ?p) @ tl (forward_trj ?p)
            \<and> accepted_trials st' = accepted_trials ?st + 1
            \<and> accepted_shooting_points st' = accepted_shooting_points ?st @ [shooting_point ?p])"
    using fixed_length_acceptance [of ?p state_A_indicator False state_B_indicator True
        True False 1 0 1 ?st]
    by simp
  then show ?thesis
    using fixed_length_trial_example_accept by simp
qed

lemma fixed_length_trial_total:
  assumes "check_endpoints in_A in_B p = Inr reactive" "freq > 0"
  shows "\<exists>st'. fixed_length_trial in_A in_B eq freq trial p st = Inr st'
     \<and> add_path_to_ensemble eq freq trial (if reactive then accept_move p st else st) = Inr st'"
proof -
  obtain st' where
    "add_path_to_ensemble eq freq trial (if reactive then accept_move p st else st) = Inr st'"
    using add_path_to_ensemble_total [of eq trial freq] assms(2) by blast
  then show ?thesis using assms(1) by (simp add: fixed_length_trial_def)
qed

lemma flexible_length_trial_total:
  assumes "check_endpoints in_A in_B p = Inr reactive" "freq > 0"
  shows "\<exists>st' ratio. flexible_length_trial in_A in_B eq freq trial p u st = Inr st'
     \<and> length_ratio (N_old (current_path st)) (N_new p) = Inr ratio
     \<and> add_path_to_ensemble eq freq trial
          (if reactive \<and> accept_draw u ratio then accept_move p st else st) = Inr st'"
proof -
  obtain ratio where lr: "length_ratio (N_old (current_path st)) (N_new p) = Inr ratio"
    using length_ratio_reactive [OF assms(1)] by blast
  obtain st' where a: "add_path_to_ensemble eq freq trial
          (if reactive \<and> accept_draw u ratio then accept_move p st else st) = Inr st'"
    using add_path_to_ensemble_total [of eq trial freq] assms(2) by blast
  have "flexible_length_trial in_A in_B eq freq trial p u st = Inr st'"
    using assms(1) lr a by (cases reactive) (simp_all add: flexible_length_trial_def)
  then show ?thesis using lr a by blast
qed

lemma sampling_loop_total:
  assumes "\<And>trial st. \<exists>st'. body trial st = Inr st'"
  shows "\<exists>st'. sampling_loop body trials st = Inr st'"
proof (induction trials arbitrary: st)
  case Nil
  then show ?case by simp
next
  case (Cons trial trials)
  obtain mid where "body trial st = Inr mid" using assms by blast
  then show ?case using Cons.IH [of mid] by simp
qed

lemma joined_path_facts:
  assumes "forward_trj p = shooting_point p # fw" "reverse_trj p = shooting_point p # rv"
  shows "rev (reverse_trj p) @ tl (forward_trj p) = rev rv @ shooting_point p # fw"
    "(rev (reverse_trj p) @ tl (forward_trj p)) ! (length (reverse_trj p) - 1) = shooting_point p"
    "last (rev (reverse_trj p)) = shooting_point p"
    "int (length (rev (reverse_trj p) @ tl (forward_trj p)))
       = int (length (reverse_trj p)) + int (length (forward_trj p)) - 1"
    "count_list (rev (reverse_trj p) @ tl (forward_trj p)) (shooting_point p)
       = 1 + count_list rv (shooting_point p) + count_list fw (shooting_point p)"
  using assms by (simp_all add: nth_append)

text \<open>
  Claim C6, as amended. A reactive proposal is accepted by the fixed-length
  trial, and by the flexible-length trial when the draw passes; on every accepted
  trial of either sampler the new current path is the reversed backward
  sub-trajectory followed by the forward sub-trajectory without its first
  element. Both sub-trajectories start at the shooting point: of these two copies
  the new path holds one, the last element of the reversed backward part, at
  index \<open>len(backward) - 1\<close>, and its length is
  \<open>len(backward) + len(forward) - 1\<close>. The shooting point occurs in the new
  path once more for every later point of a sub-trajectory that equals it, so
  exactly once when neither sub-trajectory returns to it.
\<close>

theorem accepted_trial_path:
  assumes "check_endpoints in_A in_B p = Inr True" "freq > 0"
    and "forward_trj p = shooting_point p # fw" "reverse_trj p = shooting_point p # rv"
  shows "(\<exists>st'. fixed_length_trial in_A in_B eq freq trial p st = Inr st'
          \<and> accepted_trials st' = accepted_trials st + 1
          \<and> current_path st' = rev (reverse_trj p) @ tl (forward_trj p))
     \<and> (\<exists>ratio. length_ratio (N_old (current_path st)) (N_new p) = Inr ratio
          \<and> (accept_draw u ratio \<longrightarrow>
               (\<exists>st'. flexible_length_trial in_A in_B eq freq trial p u st = Inr st'
                  \<and> accepted_trials st' = accepted_trials st + 1
                  \<and> current_path st' = rev (reverse_trj p) @ tl (forward_trj p))))
     \<and> (\<forall>st'. (fixed_length_trial in_A in_B eq freq trial p st = Inr st'
                \<or> flexible_length_trial in_A in_B eq freq trial p u st = Inr st')
               \<and> accepted_trials st' \<noteq> accepted_trials st \<longrightarrow>
               current_path st' = rev (reverse_trj p) @ tl (forward_trj p))
     \<and> rev (reverse_trj p) @ tl (forward_trj p) = rev rv @ shooting_point p # fw
     \<and> (rev (reverse_trj p) @ tl (forward_trj p)) ! (length (reverse_trj p) - 1)
         = shooting_point p
     \<and> last (rev (reverse_trj p)) = shooting_point p
     \<and> int (length (rev (reverse_trj p) @ tl (forward_trj p)))
         = int (length (reverse_trj p)) + int (length (forward_trj p)) - 1
     \<and> count_list (rev (reverse_trj p) @ tl (forward_trj p)) (shooting_point p)
         = 1 + count_list rv (shooting_point p) + count_list fw (shooting_point p)
     \<and> (shooting_point p \<notin> set rv \<and> shooting_point p \<notin> set fw \<longrightarrow>
          count_list (rev (reverse_trj p) @ tl (forward_trj p)) (shooting_point p) = 1)"
proof -
  obtain s1 where f: "fixed_length_trial in_A in_B eq freq trial p st = Inr s1"
    and fa: "add_path_to_ensemble eq freq trial (if True then accept_move p st else st) = Inr s1"
    using fixed_length_trial_total [OF assms(1,2)] by blast
  have fixed: "\<exists>st'. fixed_length_trial in_A in_B eq freq trial p st = Inr st'
          \<and> accepted_trials st' = accepted_trials st + 1
          \<and> current_path st' = rev (reverse_trj p) @ tl (forward_trj p)"
    using f add_path_to_ensemble_Inr(1,2) [OF fa] by (simp add: accept_move_def)
  obtain s2 ratio where x: "flexible_length_trial in_A in_B eq freq trial p u st = Inr s2"
    and lr: "length_ratio (N_old (current_path st)) (N_new p) = Inr ratio"
    and xa: "add_path_to_ensemble eq freq trial
          (if True \<and> accept_draw u ratio then accept_move p st else st) = Inr s2"
    using flexible_length_trial_total [OF assms(1,2)] by blast
  have flexible: "\<exists>ratio. length_ratio (N_old (current_path st)) (N_new p) = Inr ratio
          \<and> (accept_draw u ratio \<longrightarrow>
               (\<exists>st'. flexible_length_trial in_A in_B eq freq trial p u st = Inr st'
                  \<and> accepted_trials st' = accepted_trials st + 1
                  \<and> current_path st' = rev (reverse_trj p) @ tl (forward_trj p)))"
    using x lr add_path_to_ensemble_Inr(1,2) [OF xa] by (auto simp: accept_move_def)
  have every: "\<forall>st'. (fixed_length_trial in_A in_B eq freq trial p st = Inr st'
                \<or> flexible_length_trial in_A in_B eq freq trial p u st = Inr st')
               \<and> accepted_trials st' \<noteq> accepted_trials st \<longrightarrow>
               current_path st' = rev (reverse_trj p) @ tl (forward_trj p)"
  proof (intro allI impI)
    fix st'
    assume a: "(fixed_length_trial in_A in_B eq freq trial p st = Inr st'
                \<or> flexible_length_trial in_A in_B eq freq trial p u st = Inr st')
               \<and> accepted_trials st' \<noteq> accepted_trials st"
    then obtain mid where m: "mid = st \<or> mid = accept_move p st"
      and e: "add_path_to_ensemble eq freq trial mid = Inr st'"
      using trial_outcome [of in_A in_B eq freq trial p st st' u] by blast
    have "mid = accept_move p st"
      using m add_path_to_ensemble_Inr(2) [OF e] a by auto
    then show "current_path st' = rev (reverse_trj p) @ tl (forward_trj p)"
      using add_path_to_ensemble_Inr(1) [OF e] by (simp add: accept_move_def)
  qed
  note j = joined_path_facts [OF assms(3,4)]
  have once: "shooting_point p \<notin> set rv \<and> shooting_point p \<notin> set fw \<longrightarrow>
          count_list (rev (reverse_trj p) @ tl (forward_trj p)) (shooting_point p) = 1"
    unfolding j(5) by (simp add: count_list_0_iff)
  show ?thesis
    using fixed flexible every j once by blast
qed

lemma check_endpoints_example_revisit:
  "check_endpoints state_A_indicator state_B_indicator
     \<lparr>shooting_point = [0, 0], forward_trj = [[0, 0], [0, 0], [2, 2]],
      reverse_trj = [[0, 0], [- 2, - 2]]\<rparr> = Inr True"
  by (simp add: check_endpoints_def endpoint_def is_reactive_path_def)

lemma check_endpoints_example_accept:
  "check_endpoints state_A_indicator state_B_indicator
     \<lparr>shooting_point = [0, 0], forward_trj = [[0, 0], [2, 2]],
      reverse_trj = [[0, 0], [- 2, - 2]]\<rparr> = Inr True"
  by (simp add: check_endpoints_def endpoint_def is_reactive_path_def)

lemma check_endpoints_example_reject:
  "check_endpoints state_A_indicator state_B_indicator
     \<lparr>shooting_point = [0, 0], forward_trj = [[0, 0], [1, 0]],
      reverse_trj = [[0, 0], [- 2, - 2]]\<rparr> = Inr False"
  by (simp add: check_endpoints_def endpoint_def is_reactive_path_def)

text \<open>
  The claim as first stated, that the shooting point occurs exactly once in
  every accepted path, fails when a sub-trajectory returns to its start: here the
  forward sub-trajectory stays at the shooting point for one step, the trial is
  accepted, and the new path holds the shooting point twice.
\<close>

theorem shooting_point_twice_counterexample:
  "fixed_length_trial state_A_indicator state_B_indicator 0 1 1
     \<lparr>shooting_point = [0, 0], forward_trj = [[0, 0], [0, 0], [2, 2]],
      reverse_trj = [[0, 0], [- 2, - 2]]\<rparr>
     (initial_tps_state [[- 1, - 1], [1, 1]])
   = Inr \<lparr>current_path = [[- 2, - 2], [0, 0], [0, 0], [2, 2]],
          accepted_shooting_points = [[0, 0]], accepted_trials = 1,
          trajectory_ensemble = [[[- 2, - 2], [0, 0], [0, 0], [2, 2]]]\<rparr>
   \<and> count_list [[- 2, - 2], [0, 0], [0, 0], [2, 2]] [0, 0 :: real] = 2"
  by (simp add: fixed_length_trial_def check_endpoints_example_revisit
      initial_tps_state_def accept_move_def add_path_to_ensemble_def)

theorem accepted_trial_path_witness:
  "\<exists>st'. fixed_length_trial state_A_indicator state_B_indicator 0 1 1
       \<lparr>shooting_point = [0, 0], forward_trj = [[0, 0], [2, 2]],
        reverse_trj = [[0, 0], [- 2, - 2]]\<rparr>
       (initial_tps_state [[- 1, - 1], [1, 1]]) = Inr st'
     \<and> accepted_trials st' = 1
     \<and> current_path st' = [[- 2, - 2], [0, 0], [2, 2]]
     \<and> count_list (current_path st') [0, 0] = 1
     \<and> length (current_path st') = 3"
proof -
  let ?p = "\<lparr>shooting_point = [0, 0], forward_trj = [[0, 0], [2, 2]],
      reverse_trj = [[0, 0], [- 2, - 2::real]]\<rparr>"
  let ?st = "initial_tps_state [[- 1, - 1], [1, 1]]"
  have h: "(1::nat) > 0" "forward_trj ?p = shooting_point ?p # [[2, 2]]"
    "reverse_trj ?p = shooting_point ?p # [[- 2, - 2]]"
    by simp_all
  from accepted_trial_path [OF check_endpoints_example_accept h, of 0 1 ?st]
  obtain st' where t: "fixed_length_trial state_A_indicator state_B_indicator 0 1 1 ?p ?st
        = Inr st'"
    and a: "accepted_trials st' = accepted_trials ?st + 1"
    and c: "current_path st' = rev (reverse_trj ?p) @ tl (forward_trj ?p)"
    by blast
  have "accepted_trials st' = 1" using a by (simp add: initial_tps_state_def)
  moreover have "current_path st' = [[- 2, - 2], [0, 0], [2, 2]]" using c by simp
  ultimately show ?thesis using t by simp
qed

lemma fixed_length_tps_total:
  assumes "freq > 0"
    and "\<forall>trial path. \<exists>r. check_endpoints in_A in_B (propose trial path) = Inr r"
  shows "\<exists>final. fixed_length_tps in_A in_B eq freq propose total_trials path = Inr final"
  unfolding fixed_length_tps_def
proof (rule sampling_loop_total)
  fix trial :: nat and st :: tps_state
  obtain r where "check_endpoints in_A in_B (propose trial (current_path st)) = Inr r"
    using assms(2) by blast
  from fixed_length_trial_total [OF this assms(1)]
  show "\<exists>st'. fixed_length_trial in_A in_B eq freq trial
      (propose trial (current_path st)) st = Inr st'"
    by blast
qed

lemma flexible_length_tps_total:
  assumes "freq > 0"
    and "\<forall>trial path. \<exists>r. check_endpoints in_A in_B (fst (propose trial path)) = Inr r"
  shows "\<exists>final. flexible_length_tps in_A in_B eq freq propose total_trials path = Inr final"
  unfolding flexible_length_tps_def
proof (rule sampling_loop_total)
  fix trial :: nat and st :: tps_state
  obtain r where "check_endpoints in_A in_B (fst (propose trial (current_path st))) = Inr r"
    using assms(2) by blast
  from flexible_length_trial_total [OF this assms(1)]
  show "\<exists>st'. flexible_length_trial in_A in_B eq freq trial
      (fst (propose trial (current_path st))) (snd (propose trial (current_path st))) st
        = Inr st'"
    by blast
qed

text \<open>
  Claim C7. In both samplers a trial whose endpoints can be classified
  returns, and if its index is above the equilibration threshold and divisible by
  the path output frequency it appends the current path, as it stands after the
  trial, to the ensemble, whether the trial was accepted or not; any other trial
  leaves the ensemble alone. An accepted trial replaces the current path; a
  rejected one leaves the path and the counter unchanged, so that a sampled
  rejected trial appends the carried-over path once more. A whole run returns
  with one path for every sampled trial index, and a run without any accepted
  trial returns that many copies of the initial path.
\<close>

theorem ensemble_records_every_sampled_trial:
  assumes "freq > 0"
    and "check_endpoints in_A in_B p = Inr reactive"
    and "\<forall>trial path. \<exists>r. check_endpoints in_A in_B (propose trial path) = Inr r"
    and "\<forall>trial path. \<exists>r. check_endpoints in_A in_B (fst (propose_draw trial path)) = Inr r"
  shows "(\<exists>st'. fixed_length_trial in_A in_B eq freq trial p st = Inr st'
          \<and> (trial > eq \<and> trial mod freq = 0 \<longrightarrow>
               trajectory_ensemble st' = trajectory_ensemble st @ [current_path st'])
          \<and> (\<not> (trial > eq \<and> trial mod freq = 0) \<longrightarrow>
               trajectory_ensemble st' = trajectory_ensemble st)
          \<and> (reactive \<longrightarrow>
               current_path st' = rev (reverse_trj p) @ tl (forward_trj p)
               \<and> accepted_trials st' = accepted_trials st + 1)
          \<and> (\<not> reactive \<longrightarrow>
               current_path st' = current_path st \<and> accepted_trials st' = accepted_trials st))
     \<and> (\<exists>st' ratio. flexible_length_trial in_A in_B eq freq trial p u st = Inr st'
          \<and> length_ratio (N_old (current_path st)) (N_new p) = Inr ratio
          \<and> (trial > eq \<and> trial mod freq = 0 \<longrightarrow>
               trajectory_ensemble st' = trajectory_ensemble st @ [current_path st'])
          \<and> (\<not> (trial > eq \<and> trial mod freq = 0) \<longrightarrow>
               trajectory_ensemble st' = trajectory_ensemble st)
          \<and> (reactive \<and> accept_draw u ratio \<longrightarrow>
               current_path st' = rev (reverse_trj p) @ tl (forward_trj p)
               \<and> accepted_trials st' = accepted_trials st + 1)
          \<and> (\<not> (reactive \<and> accept_draw u ratio) \<longrightarrow>
               current_path st' = current_path st \<and> accepted_trials st' = accepted_trials st))
     \<and> (\<exists>final. fixed_length_tps in_A in_B eq freq propose total_trials path = Inr final
          \<and> length (trajectory_ensemble final)
              = length (filter (\<lambda>t. t > eq \<and> t mod freq = 0) [0..<total_trials])
          \<and> (accepted_trials final = 0 \<longrightarrow>
               trajectory_ensemble final
                 = replicate (length (filter (\<lambda>t. t > eq \<and> t mod freq = 0)
                     [0..<total_trials])) path))
     \<and> (\<exists>final. flexible_length_tps in_A in_B eq freq propose_draw total_trials path
            = Inr final
          \<and> length (trajectory_ensemble final)
              = length (filter (\<lambda>t. t > eq \<and> t mod freq = 0) [0..<total_trials])
          \<and> (accepted_trials final = 0 \<longrightarrow>
               trajectory_ensemble final
                 = replicate (length (filter (\<lambda>t. t > eq \<and> t mod freq = 0)
                     [0..<total_trials])) path))"
proof (intro conjI)
  obtain s1 where f: "fixed_length_trial in_A in_B eq freq trial p st = Inr s1"
    and fa: "add_path_to_ensemble eq freq trial (if reactive then accept_move p st else st)
        = Inr s1"
    using fixed_length_trial_total [OF assms(2,1)] by blast
  note k = add_path_to_ensemble_Inr [OF fa]
  show "\<exists>st'. fixed_length_trial in_A in_B eq freq trial p st = Inr st'
          \<and> (trial > eq \<and> trial mod freq = 0 \<longrightarrow>
               trajectory_ensemble st' = trajectory_ensemble st @ [current_path st'])
          \<and> (\<not> (trial > eq \<and> trial mod freq = 0) \<longrightarrow>
               trajectory_ensemble st' = trajectory_ensemble st)
          \<and> (reactive \<longrightarrow>
               current_path st' = rev (reverse_trj p) @ tl (forward_trj p)
               \<and> accepted_trials st' = accepted_trials st + 1)
          \<and> (\<not> reactive \<longrightarrow>
               current_path st' = current_path st \<and> accepted_trials st' = accepted_trials st)"
    using f k by (intro exI [of _ s1]) (auto simp: accept_move_def)
next
  obtain s2 ratio where x: "flexible_length_trial in_A in_B eq freq trial p u st = Inr s2"
    and lr: "length_ratio (N_old (current_path st)) (N_new p) = Inr ratio"
    and xa: "add_path_to_ensemble eq freq trial
          (if reactive \<and> accept_draw u ratio then accept_move p st else st) = Inr s2"
    using flexible_length_trial_total [OF assms(2,1)] by blast
  note k = add_path_to_ensemble_Inr [OF xa]
  show "\<exists>st' ratio. flexible_length_trial in_A in_B eq freq trial p u st = Inr st'
          \<and> length_ratio (N_old (current_path st)) (N_new p) = Inr ratio
          \<and> (trial > eq \<and> trial mod freq = 0 \<longrightarrow>
               trajectory_ensemble st' = trajectory_ensemble st @ [current_path st'])
          \<and> (\<not> (trial > eq \<and> trial mod freq = 0) \<longrightarrow>
               trajectory_ensemble st' = trajectory_ensemble st)
          \<and> (reactive \<and> accept_draw u ratio \<longrightarrow>
               current_path st' = rev (reverse_trj p) @ tl (forward_trj p)
               \<and> accepted_trials st' = accepted_trials st + 1)
          \<and> (\<not> (reactive \<and> accept_draw u ratio) \<longrightarrow>
               current_path st' = current_path st \<and> accepted_trials st' = accepted_trials st)"
    using x lr k by (intro exI [of _ s2] exI [of _ ratio]) (auto simp: accept_move_def)
next
  obtain final where r: "fixed_length_tps in_A in_B eq freq propose total_trials path = Inr final"
    using fixed_length_tps_total [OF assms(1,3)] by blast
  from fixed_length_tps_ensemble [OF r] r
  show "\<exists>final. fixed_length_tps in_A in_B eq freq propose total_trials path = Inr final
          \<and> length (trajectory_ensemble final)
              = length (filter (\<lambda>t. t > eq \<and> t mod freq = 0) [0..<total_trials])
          \<and> (accepted_trials final = 0 \<longrightarrow>
               trajectory_ensemble final
                 = replicate (length (filter (\<lambda>t. t > eq \<and> t mod freq = 0)
                     [0..<total_trials])) path)"
    by (intro exI [of _ final]) simp
next
  obtain final where r: "flexible_length_tps in_A in_B eq freq propose_draw total_trials path
      = Inr final"
    using flexible_length_tps_total [OF assms(1,4)] by blast
  from flexible_length_tps_ensemble [OF r] r
  show "\<exists>final. flexible_length_tps in_A in_B eq freq propose_draw total_trials path
            = Inr final
          \<and> length (trajectory_ensemble final)
              = length (filter (\<lambda>t. t > eq \<and> t mod freq = 0) [0..<total_trials])
          \<and> (accepted_trials final = 0 \<longrightarrow>
               trajectory_ensemble final
                 = replicate (length (filter (\<lambda>t. t > eq \<and> t mod freq = 0)
                     [0..<total_trials])) path)"
    by (intro exI [of _ final]) simp
qed

lemma sampled_trials_example:
  "length (filter (\<lambda>t. t > 0 \<and> t mod 1 = 0) [0..<3]) = 2"
  by (simp add: upt_0_3)

theorem ensemble_records_every_sampled_trial_witness:
  "(\<exists>st'. fixed_length_trial state_A_indicator state_B_indicator 0 1 1
       \<lparr>shooting_point = [0, 0], forward_trj = [[0, 0], [1, 0]],
        reverse_trj = [[0, 0], [- 2, - 2]]\<rparr>
       (initial_tps_state [[- 1, - 1], [1, 1]]) = Inr st'
     \<and> trajectory_ensemble st' = [[[- 1, - 1], [1, 1]]]
     \<and> current_path st' = [[- 1, - 1], [1, 1]])
   \<and> (\<exists>final. fixed_length_tps state_A_indicator state_B_indicator 0 1
         (\<lambda>trial path. \<lparr>shooting_point = [0, 0], forward_trj = [[0, 0], [1, 0]],
           reverse_trj = [[0, 0], [- 2, - 2]]\<rparr>) 3 [[- 1, - 1], [1, 1]] = Inr final
       \<and> length (trajectory_ensemble final) = 2)"
proof -
  let ?p = "\<lparr>shooting_point = [0, 0], forward_trj = [[0, 0], [1, 0]],
      reverse_trj = [[0, 0], [- 2, - 2::real]]\<rparr>"
  let ?st = "initial_tps_state [[- 1, - 1], [1, 1]]"
  let ?propose = "\<lambda>(trial::nat) (path::trajectory). ?p"
  let ?propose_draw = "\<lambda>(trial::nat) (path::trajectory). (?p, 0::real)"
  have h1: "(1::nat) > 0" by simp
  have h2: "\<forall>trial path. \<exists>r. check_endpoints state_A_indicator state_B_indicator
        (?propose trial path) = Inr r"
    using check_endpoints_example_reject by blast
  have h3: "\<forall>trial path. \<exists>r. check_endpoints state_A_indicator state_B_indicator
        (fst (?propose_draw trial path)) = Inr r"
    unfolding fst_conv using check_endpoints_example_reject by blast
  note t = ensemble_records_every_sampled_trial [OF h1 check_endpoints_example_reject h2 h3,
      of 0 1 ?st 0 3 "[[- 1, - 1], [1, 1]]"]
  from t obtain st' where
    a: "fixed_length_trial state_A_indicator state_B_indicator 0 1 1 ?p ?st = Inr st'"
    and b: "(0::nat) < 1 \<and> (1::nat) mod 1 = 0 \<longrightarrow>
               trajectory_ensemble st' = trajectory_ensemble ?st @ [current_path st']"
    and c: "\<not> False \<longrightarrow>
               current_path st' = current_path ?st \<and> accepted_trials st' = accepted_trials ?st"
    by blast
  have one: "\<exists>st'. fixed_length_trial state_A_indicator state_B_indicator 0 1 1 ?p ?st = Inr st'
     \<and> trajectory_ensemble st' = [[[- 1, - 1], [1, 1]]]
     \<and> current_path st' = [[- 1, - 1], [1, 1]]"
    using a b c by (intro exI [of _ st']) (simp add: initial_tps_state_def)
  from t obtain final where
    r: "fixed_length_tps state_A_indicator state_B_indicator 0 1 ?propose 3
          [[- 1, - 1], [1, 1]] = Inr final"
    and l: "length (trajectory_ensemble final)
              = length (filter (\<lambda>t. t > 0 \<and> t mod 1 = 0) [0..<3])"
    by blast
  have two: "\<exists>final. fixed_length_tps state_A_indicator state_B_indicator 0 1 ?propose 3
          [[- 1, - 1], [1, 1]] = Inr final \<and> length (trajectory_ensemble final) = 2"
    using r l sampled_trials_example by (intro exI [of _ final]) simp
  show ?thesis using one two by blast
qed

subsection \<open>Trajectory generation\<close>








subsection \<open>Propagation and the caller's arrays\<close>

lemma update_positions_ref_frame:
  assumes "update_positions_ref current_x force beta dt D g s = Inr (next_x, g', s')"
  shows "next_x = length s \<and> (\<exists>v. s' = s @ [v])"
  using assms
  by (auto simp: update_positions_ref_def alloc_def split: sum.splits prod.splits)

lemma generate_path_steps_ref_frame:
  assumes "writes_only_argument force_function"
    and "generate_path_steps_ref force_function freq beta dt D steps previous_x g trajectory s
          = Inr (trajectory', g', s')"
    and "previous_x < length s" "a < length s" "a \<noteq> previous_x"
  shows "length s \<le> length s' \<and> s' ! a = s ! a"
  using assms(2-)
proof (induction steps arbitrary: previous_x g trajectory s)
  case Nil
  then show ?case by simp
next
  case (Cons step steps)
  from Cons.prems(1) obtain current_force s1 next_x g1 s2
    where f: "force_function previous_x s = Inr (current_force, s1)"
      and u: "update_positions_ref previous_x current_force beta dt D g s1 = Inr (next_x, g1, s2)"
      and r: "generate_path_steps_ref force_function freq beta dt D steps next_x g1
                (if step mod freq = 0 then trajectory @ [s2 ! next_x] else trajectory) s2
              = Inr (trajectory', g', s')"
    by (auto split: sum.splits prod.splits if_splits)
  have f1: "length s \<le> length s1" "s1 ! a = s ! a"
    using assms(1) f Cons.prems(2-4) unfolding writes_only_argument_def by blast+
  obtain v where u1: "next_x = length s1" "s2 = s1 @ [v]"
    using update_positions_ref_frame [OF u] by blast
  have "length s2 \<le> length s' \<and> s' ! a = s2 ! a"
    using Cons.IH [OF r] u1 f1 Cons.prems(3) by simp
  then show ?case
    using u1 f1 Cons.prems(3) by (simp add: nth_append)
qed

lemma generate_path_to_state_steps_ref_frame:
  assumes "writes_only_argument force_function"
    and "generate_path_to_state_steps_ref force_function state_functions freq beta dt D steps
           previous_x g trajectory s = Inr (trajectory', g', s')"
    and "previous_x < length s" "a < length s" "a \<noteq> previous_x"
  shows "length s \<le> length s' \<and> s' ! a = s ! a"
  using assms(2-)
proof (induction steps arbitrary: previous_x g trajectory s)
  case Nil
  then show ?case by simp
next
  case (Cons step steps)
  from Cons.prems(1) obtain current_force s1
    where f: "force_function previous_x s = Inr (current_force, s1)"
      and c1: "(case update_positions_ref previous_x current_force beta dt D g s1 of
             Inl e \<Rightarrow> Inl e
           | Inr (next_x, g', s2) \<Rightarrow>
               if freq = 0 then Inl ZeroDivisionError
               else if step mod freq = 0 then
                 (case any_state state_functions (s2 ! next_x) of
                    Inl e \<Rightarrow> Inl e
                  | Inr in_state \<Rightarrow>
                      if in_state then Inr (trajectory @ [s2 ! next_x], g', s2)
                      else generate_path_to_state_steps_ref force_function state_functions
                             freq beta dt D steps next_x g' (trajectory @ [s2 ! next_x]) s2)
               else generate_path_to_state_steps_ref force_function state_functions
                      freq beta dt D steps next_x g' trajectory s2) = Inr (trajectory', g', s')"
    by (auto split: sum.splits prod.splits)
  from c1 obtain next_x g1 s2
    where u: "update_positions_ref previous_x current_force beta dt D g s1 = Inr (next_x, g1, s2)"
      and c2: "(if freq = 0 then Inl ZeroDivisionError
               else if step mod freq = 0 then
                 (case any_state state_functions (s2 ! next_x) of
                    Inl e \<Rightarrow> Inl e
                  | Inr in_state \<Rightarrow>
                      if in_state then Inr (trajectory @ [s2 ! next_x], g1, s2)
                      else generate_path_to_state_steps_ref force_function state_functions
                             freq beta dt D steps next_x g1 (trajectory @ [s2 ! next_x]) s2)
               else generate_path_to_state_steps_ref force_function state_functions
                      freq beta dt D steps next_x g1 trajectory s2) = Inr (trajectory', g', s')"
    by (auto split: sum.splits prod.splits)
  have r: "(g' = g1 \<and> s' = s2) \<or> (\<exists>t. generate_path_to_state_steps_ref force_function
                state_functions freq beta dt D steps next_x g1 t s2
              = Inr (trajectory', g', s'))"
    using c2 by (auto split: sum.splits if_splits)
  have f1: "length s \<le> length s1" "s1 ! a = s ! a"
    using assms(1) f Cons.prems(2-4) unfolding writes_only_argument_def by blast+
  obtain v where u1: "next_x = length s1" "s2 = s1 @ [v]"
    using update_positions_ref_frame [OF u] by blast
  have "length s2 \<le> length s' \<and> s' ! a = s2 ! a"
    using r
  proof
    assume "g' = g1 \<and> s' = s2"
    then show ?thesis by simp
  next
    assume "\<exists>t. generate_path_to_state_steps_ref force_function
                state_functions freq beta dt D steps next_x g1 t s2
              = Inr (trajectory', g', s')"
    then obtain t where "generate_path_to_state_steps_ref force_function
                state_functions freq beta dt D steps next_x g1 t s2
              = Inr (trajectory', g', s')" by blast
    from Cons.IH [OF this] show ?thesis using u1 f1 Cons.prems(3) by simp
  qed
  then show ?case
    using u1 f1 Cons.prems(3) by (simp add: nth_append)
qed

lemma lift_force_writes_only_argument: "writes_only_argument (lift_force f)"
  by (auto simp: writes_only_argument_def lift_force_def alloc_def nth_append split: sum.splits)

lemma generate_path_steps_ref_value:
  assumes "previous_x < length s"
  shows "(case generate_path_steps_ref (lift_force f) freq beta dt D steps previous_x g trajectory s of
           Inl e \<Rightarrow> Inl e | Inr (t, g', s') \<Rightarrow> Inr (t, g'))
         = generate_path_steps f freq beta dt D steps (s ! previous_x) g trajectory"
  using assms
proof (induction steps arbitrary: previous_x g trajectory s)
  case Nil
  then show ?case by simp
next
  case (Cons step steps)
  show ?case
  proof (cases "f (s ! previous_x)")
    case (Inl e)
    then show ?thesis by (simp add: lift_force_def)
  next
    case (Inr fv)
    show ?thesis
    proof (cases "update_positions (s ! previous_x) fv beta dt D g")
      case (Inl e)
      have lf: "lift_force f previous_x s = Inr (length s, s @ [fv])"
        using Inr by (simp add: lift_force_def alloc_def)
      have up: "update_positions_ref previous_x (length s) beta dt D g (s @ [fv]) = Inl e"
        using Inl Cons.prems by (simp add: update_positions_ref_def nth_append)
      show ?thesis
        using Inr Inl lf up by simp
    next
      case u: (Inr r)
      obtain nx g1 where r: "r = (nx, g1)" by (cases r)
      have ih: "(case generate_path_steps_ref (lift_force f) freq beta dt D steps (Suc (length s)) g1 t
              (s @ [fv, nx]) of
           Inl e \<Rightarrow> Inl e | Inr (t, g', s') \<Rightarrow> Inr (t, g'))
         = generate_path_steps f freq beta dt D steps nx g1 t" for t
        using Cons.IH [of "Suc (length s)" "s @ [fv, nx]" g1 t] by (simp add: nth_append)
      have lf: "lift_force f previous_x s = Inr (length s, s @ [fv])"
        using Inr by (simp add: lift_force_def alloc_def)
      have up: "update_positions_ref previous_x (length s) beta dt D g (s @ [fv])
          = Inr (Suc (length s), g1, s @ [fv, nx])"
        using u r Cons.prems by (simp add: update_positions_ref_def alloc_def nth_append)
      have nx: "(s @ [fv, nx]) ! Suc (length s) = nx"
        by (simp add: nth_append)
      show ?thesis
        using Inr u r ih lf up nx by simp
    qed
  qed
qed

lemma generate_path_ref_value:
  assumes "a < length s"
  shows "(case generate_path_ref (lift_force f) a N freq beta dt D g s of
           Inl e \<Rightarrow> Inl e | Inr (t, g', s') \<Rightarrow> Inr (t, g'))
         = generate_path f (s ! a) N freq beta dt D g"
  using generate_path_steps_ref_value [of "length s" "s @ [s ! a]" f freq beta dt D "[0..<N]" g
      "[s ! a]"]
  by (simp add: generate_path_ref_def generate_path_def alloc_def Let_def)

text \<open>
  Claim C10. \<open>update_positions\<close> returns an array at a fresh address and
  leaves every array that existed before the call, the passed-in configuration
  among them, as it was. Path generation, fixed-length or bounded, starts from a
  copy of the shooting point: with a force function that writes at most to its
  argument, the caller's shooting-point array holds the same values after the
  call as before.
\<close>

theorem propagation_leaves_input_unchanged:
  "(update_positions_ref current_x force beta dt D g s = Inr (next_x, g1, s1) \<longrightarrow>
       next_x = length s \<and> length s1 = length s + 1
     \<and> (\<forall>a < length s. s1 ! a = s ! a)
     \<and> update_positions (s ! current_x) (s ! force) beta dt D g = Inr (s1 ! next_x, g1))
   \<and> (writes_only_argument force_function \<and> sp < length s
       \<and> generate_path_ref force_function sp N freq beta dt D g s = Inr (trajectory, g2, s2) \<longrightarrow>
       length s \<le> length s2 \<and> s2 ! sp = s ! sp)
   \<and> (writes_only_argument force_function \<and> sp < length s
       \<and> generate_path_to_state_ref force_function sp N state_functions freq beta dt D g s
           = Inr (trajectory', g3, s3) \<longrightarrow>
       length s \<le> length s3 \<and> s3 ! sp = s ! sp)"
proof (intro conjI impI)
  assume u: "update_positions_ref current_x force beta dt D g s = Inr (next_x, g1, s1)"
  then obtain v where v: "next_x = length s" "s1 = s @ [v]"
    using update_positions_ref_frame by blast
  then show "next_x = length s" "length s1 = length s + 1" "\<forall>a < length s. s1 ! a = s ! a"
    by (simp_all add: nth_append)
  show "update_positions (s ! current_x) (s ! force) beta dt D g = Inr (s1 ! next_x, g1)"
    using u by (auto simp: update_positions_ref_def alloc_def split: sum.splits prod.splits)
next
  assume a: "writes_only_argument force_function \<and> sp < length s
       \<and> generate_path_ref force_function sp N freq beta dt D g s = Inr (trajectory, g2, s2)"
  then have r: "generate_path_steps_ref force_function freq beta dt D [0..<N] (length s) g
      [s ! sp] (s @ [s ! sp]) = Inr (trajectory, g2, s2)"
    by (simp add: generate_path_ref_def alloc_def nth_append)
  from generate_path_steps_ref_frame [OF _ r, of sp] a
  show "length s \<le> length s2" "s2 ! sp = s ! sp"
    by (simp_all add: nth_append)
next
  assume a: "writes_only_argument force_function \<and> sp < length s
       \<and> generate_path_to_state_ref force_function sp N state_functions freq beta dt D g s
           = Inr (trajectory', g3, s3)"
  then consider "s3 = s @ [s ! sp]"
    | "generate_path_to_state_steps_ref force_function state_functions freq beta dt D [0..<N]
        (length s) g [s ! sp] (s @ [s ! sp]) = Inr (trajectory', g3, s3)"
    by (auto simp: generate_path_to_state_ref_def alloc_def nth_append
        split: sum.splits if_splits)
  then have "length s \<le> length s3 \<and> s3 ! sp = s ! sp"
  proof cases
    case 1
    then show ?thesis using a by (simp add: nth_append)
  next
    case 2
    from generate_path_to_state_steps_ref_frame [OF _ 2, of sp] a
    show ?thesis by (simp add: nth_append)
  qed
  then show "length s \<le> length s3" "s3 ! sp = s ! sp" by simp_all
qed

lemma upt_0_2: "[0..<2] = [0, 1]"
  by (simp add: upt_rec)

lemma generate_path_ref_example:
  "generate_path_ref (lift_force custom_force_function) 0 2 1 1 (1/2) 1 (\<lambda>i. 1) [[0, 0]]
   = Inr ([[0, 0], [1, 1], [2, 2]], \<lambda>i. 1,
          [[0, 0], [0, 0], [0, 0], [1, 1], [0, 0], [2, 2]])"
  by (simp add: generate_path_ref_def alloc_def upt_0_2
      lift_force_def custom_force_function_def update_positions_ref_def update_positions_def
      randn_def shape_def)

lemma update_positions_ref_example:
  "update_positions_ref 0 0 1 (1/2) 1 (\<lambda>i. 1) [[0, 0]] = Inr (1, \<lambda>i. 1, [[0, 0], [1, 1]])"
  by (simp add: update_positions_ref_def update_positions_def randn_def shape_def alloc_def
      upt_0_2)

lemma generate_path_to_state_ref_example:
  "generate_path_to_state_ref (lift_force custom_force_function) 0 2
     [state_A_indicator, state_B_indicator] 1 1 (1/2) 1 (\<lambda>i. 1) [[0, 0]]
   = Inr ([[0, 0], [1, 1], [2, 2]], \<lambda>i. 1,
          [[0, 0], [0, 0], [0, 0], [1, 1], [0, 0], [2, 2]])"
  by (simp add: generate_path_to_state_ref_def alloc_def upt_0_2
      lift_force_def custom_force_function_def update_positions_ref_def update_positions_def
      randn_def shape_def)

theorem propagation_leaves_input_unchanged_witness:
  "update_positions_ref 0 0 1 (1/2) 1 (\<lambda>i. 1) [[0, 0]] = Inr (1, \<lambda>i. 1, [[0, 0], [1, 1]])
   \<and> [[0, 0], [1, 1]] ! 0 = [[0, 0 :: real]] ! 0
   \<and> generate_path_ref (lift_force custom_force_function) 0 2 1 1 (1/2) 1 (\<lambda>i. 1) [[0, 0]]
       = Inr ([[0, 0], [1, 1], [2, 2]], \<lambda>i. 1,
              [[0, 0], [0, 0], [0, 0], [1, 1], [0, 0], [2, 2]])
   \<and> generate_path_to_state_ref (lift_force custom_force_function) 0 2
        [state_A_indicator, state_B_indicator] 1 1 (1/2) 1 (\<lambda>i. 1) [[0, 0]]
       = Inr ([[0, 0], [1, 1], [2, 2]], \<lambda>i. 1,
              [[0, 0], [0, 0], [0, 0], [1, 1], [0, 0], [2, 2]])
   \<and> [[0, 0], [0, 0], [0, 0], [1, 1], [0, 0], [2, 2]] ! 0 = [[0, 0 :: real]] ! 0"
  using propagation_leaves_input_unchanged [where current_x = 0 and force = 0 and beta = 1
      and dt = "1/2" and D = 1 and g = "\<lambda>i. 1" and s = "[[0, 0]]" and next_x = 1
      and ?g1.0 = "\<lambda>i. 1" and ?s1.0 = "[[0, 0], [1, 1]]"
      and force_function = "lift_force custom_force_function" and sp = 0 and N = 2
      and freq = 1 and trajectory = "[[0, 0], [1, 1], [2, 2]]" and ?g2.0 = "\<lambda>i. 1"
      and ?s2.0 = "[[0, 0], [0, 0], [0, 0], [1, 1], [0, 0], [2, 2]]"
      and state_functions = "[state_A_indicator, state_B_indicator]"
      and trajectory' = "[[0, 0], [1, 1], [2, 2]]" and ?g3.0 = "\<lambda>i. 1"
      and ?s3.0 = "[[0, 0], [0, 0], [0, 0], [1, 1], [0, 0], [2, 2]]"]
    update_positions_ref_example generate_path_ref_example generate_path_to_state_ref_example
    lift_force_writes_only_argument [of custom_force_function]
  by simp

subsection \<open>Replica exchange\<close>











lemma upt_0_5: "[0..<5] = [0, 1, 2, 3, 4]"
  by (simp add: upt_rec)



text \<open>A single replica attempts nothing, and the run does not fail.\<close>

lemma remd_single_replica_example:
  "remd (\<lambda>step xs. Inr xs) custom_potential_energy [1] 2 (\<lambda>step. (0, 0, 0)) 5 [0, 0]
   = Inr \<lparr>replica_x = [[0, 0]], exchange_matrix = [[0]]\<rparr>"
  by (simp add: remd_def upt_0_5 attempt_exchange_def zeros_matrix_def)



end
